theory Spec2Isabelle
  imports Complex_Main "HOL-Library.Word" "HOL-Library.Monad_Syntax"
begin

section \<open>Device metrics from system properties (libs/vr/libeds/device\_metrics.cpp)\<close>

text \<open>
  The translation unit reads nine string-valued system properties, parses them as
  single floats or comma-separated float lists with \<open>strtof\<close>, and builds a
  \<open>HeadMountMetrics\<close> and a \<open>DisplayMetrics\<close> object from them.

  The embedding keeps three things explicit.
  \<^item> Floating-point arithmetic is a parameter: a record of the operations the code
    uses on \<open>float\<close> and \<open>double\<close>. The general theorems are stated for an arbitrary
    such record \<open>F\<close>; concrete inputs are run in an IEEE 754 instance.
  \<^item> What \<open>strtof\<close> consumes is modelled concretely (the subject sequence of the C
    standard); which float it returns for the consumed text is an operation of the record.
  \<^item> \<open>operator[]\<close> on a \<open>std::vector\<close> is undefined out of range; the model returns
    \<open>None\<close> there, and objects created by \<open>new\<close> live at addresses of an explicit heap.
\<close>

subsection \<open>Floating-point operations used by the code\<close>

record ('f, 'd) float_env =
  f_conv :: "string \<Rightarrow> 'f"
  f_lit :: "rat \<Rightarrow> 'f"
  f_sub :: "'f \<Rightarrow> 'f \<Rightarrow> 'f"
  f_div :: "'f \<Rightarrow> 'f \<Rightarrow> 'f"
  f_of_int :: "int \<Rightarrow> 'f"
  f_to_d :: "'f \<Rightarrow> 'd"
  d_to_f :: "'d \<Rightarrow> 'f"
  d_lit :: "rat \<Rightarrow> 'd"
  d_mul :: "'d \<Rightarrow> 'd \<Rightarrow> 'd"
  d_div :: "'d \<Rightarrow> 'd \<Rightarrow> 'd"

text \<open>
  \<open>f_conv\<close> is the value \<open>strtof\<close> returns for a subject sequence (sign included, leading
  white space removed); \<open>f_lit\<close> and \<open>d_lit\<close> are the compiler's conversions of a \<open>float\<close>
  and a \<open>double\<close> literal; \<open>f_of_int\<close> is \<open>static_cast<float>\<close> of an \<open>int\<close>; \<open>f_to_d\<close>
  is the promotion of a \<open>float\<close> operand to \<open>double\<close> and \<open>d_to_f\<close> the conversion on
  assignment to a \<open>float\<close>.
\<close>

subsection \<open>Character classes of the C locale\<close>

definition isspace :: "char \<Rightarrow> bool" where
  "isspace c = (c = CHR '' '' \<or> c = CHR 0x09 \<or> c = CHR 0x0A \<or> c = CHR 0x0B
     \<or> c = CHR 0x0C \<or> c = CHR 0x0D)"

definition isdigit :: "char \<Rightarrow> bool" where
  "isdigit c = List.member ''0123456789'' c"

definition isxdigit :: "char \<Rightarrow> bool" where
  "isxdigit c = List.member ''0123456789abcdefABCDEF'' c"

definition tolower :: "char \<Rightarrow> char" where
  "tolower c =
     (case map_of (zip ''ABCDEFGHIJKLMNOPQRSTUVWXYZ'' ''abcdefghijklmnopqrstuvwxyz'') c of
        None \<Rightarrow> c
      | Some l \<Rightarrow> l)"

definition is_nchar :: "char \<Rightarrow> bool" where
  "is_nchar c = (isdigit c \<or> c = CHR ''_''
     \<or> List.member ''abcdefghijklmnopqrstuvwxyz'' (tolower c))"

definition is_sign :: "char \<Rightarrow> bool" where
  "is_sign c = (c = CHR ''+'' \<or> c = CHR ''-'')"

subsection \<open>The subject sequence of \<open>strtof\<close>\<close>

text \<open>
  Each scanner returns how many characters of its argument belong to the longest
  initial part of the expected form; 0 means the form is not there.
  A mantissa is a nonempty digit sequence optionally containing one radix character.
\<close>

definition scan_mantissa :: "(char \<Rightarrow> bool) \<Rightarrow> string \<Rightarrow> nat" where
  "scan_mantissa dig s =
     (let ip = takeWhile dig s in
      case dropWhile dig s of
        [] \<Rightarrow> length ip
      | c # r \<Rightarrow>
          if c = CHR ''.'' then
            (let fp = takeWhile dig r in
             if ip = [] \<and> fp = [] then 0 else length ip + 1 + length fp)
          else length ip)"

text \<open>An exponent part: the marker (\<open>e\<close> or \<open>p\<close>, either case), an optional sign,
  and at least one decimal digit; otherwise nothing of it is consumed.\<close>

definition scan_exponent :: "char \<Rightarrow> string \<Rightarrow> nat" where
  "scan_exponent marker s =
     (case s of
        [] \<Rightarrow> 0
      | c # r \<Rightarrow>
          if tolower c = marker then
            (let sg = (case r of [] \<Rightarrow> 0 | d # _ \<Rightarrow> if is_sign d then 1 else (0::nat));
                 ds = takeWhile isdigit (drop sg r)
             in if ds = [] then 0 else 1 + sg + length ds)
          else 0)"

definition scan_decimal :: "string \<Rightarrow> nat" where
  "scan_decimal s =
     (let m = scan_mantissa isdigit s in
      if m = 0 then 0 else m + scan_exponent (CHR ''e'') (drop m s))"

definition scan_hex :: "string \<Rightarrow> nat" where
  "scan_hex s =
     (if map tolower (take 2 s) = ''0x'' then
        (let m = scan_mantissa isxdigit (drop 2 s) in
         if m = 0 then 0 else 2 + m + scan_exponent (CHR ''p'') (drop (2 + m) s))
      else 0)"

definition scan_inf :: "string \<Rightarrow> nat" where
  "scan_inf s =
     (if map tolower (take 8 s) = ''infinity'' then 8
      else if map tolower (take 3 s) = ''inf'' then 3
      else 0)"

definition scan_nan :: "string \<Rightarrow> nat" where
  "scan_nan s =
     (if map tolower (take 3 s) = ''nan'' then
        (case drop 3 s of
           [] \<Rightarrow> 3
         | c # r \<Rightarrow>
             if c = CHR ''('' then
               (let ns = takeWhile is_nchar r in
                case drop (length ns) r of
                  [] \<Rightarrow> 3
                | d # _ \<Rightarrow> if d = CHR '')'' then 3 + 1 + length ns + 1 else 3)
             else 3)
      else 0)"

definition scan_number :: "string \<Rightarrow> nat" where
  "scan_number s =
     (let h = scan_hex s in
      if h \<noteq> 0 then h
      else
        (let d = scan_decimal s in
         if d \<noteq> 0 then d
         else (let i = scan_inf s in if i \<noteq> 0 then i else scan_nan s)))"

text \<open>
  \<open>strtof_end s\<close> is the offset of \<open>endptr\<close> from \<open>str\<close> after \<open>strtof(str, &endptr)\<close>:
  leading white space, an optional sign and a number; 0 (that is \<open>endptr == str\<close>) when no
  conversion is performed.
\<close>

definition strtof_end :: "string \<Rightarrow> nat" where
  "strtof_end s =
     (let ws = length (takeWhile isspace s);
          r = drop ws s;
          sg = (case r of [] \<Rightarrow> 0 | c # _ \<Rightarrow> if is_sign c then 1 else (0::nat));
          n = scan_number (drop sg r)
      in if n = 0 then 0 else ws + sg + n)"

definition strtof :: "('f, 'd) float_env \<Rightarrow> string \<Rightarrow> 'f \<times> nat" where
  "strtof F s =
     (let e = strtof_end s in
      if e = 0 then (f_lit F 0, 0)
      else (f_conv F (dropWhile isspace (take e s)), e))"

subsection \<open>The anonymous namespace: parsing helpers and property readers\<close>

definition kRGBPolynomialOffset :: string where
  "kRGBPolynomialOffset = ''persist.dvr.rgb_poly_offset''"

definition kRPolynomial :: string where
  "kRPolynomial = ''persist.dvr.r_poly''"

definition kGPolynomial :: string where
  "kGPolynomial = ''persist.dvr.g_poly''"

definition kBPolynomial :: string where
  "kBPolynomial = ''persist.dvr.b_poly''"

definition kLensDistance :: string where
  "kLensDistance = ''persist.dvr.lens_distance''"

definition kDisplayGap :: string where
  "kDisplayGap = ''persist.dvr.display_gap''"

definition kVEyeToDisplay :: string where
  "kVEyeToDisplay = ''persist.dvr.v_eye_to_display''"

definition kFovIOBT :: string where
  "kFovIOBT = ''persist.dvr.fov_iobt''"

definition kScreenSize :: string where
  "kScreenSize = ''persist.dvr.screen_size''"

text \<open>
  \<open>StringToFloat\<close> stores the value of \<open>strtof\<close> in \<open>*result\<close> and returns
  \<open>!(str == endptr || !endptr)\<close>. \<open>strtof\<close> always sets \<open>endptr\<close>, so the second
  disjunct is false. The model returns the pair (return value, \<open>*result\<close>).
\<close>

definition StringToFloat :: "('f, 'd) float_env \<Rightarrow> string \<Rightarrow> bool \<times> 'f" where
  "StringToFloat F str =
     (let (result, endptr) = strtof F str in (\<not> (endptr = 0), result))"

text \<open>
  \<open>SplitString\<close>: one \<open>std::getline\<close> per iteration. \<open>getline\<close> fails, ending the loop,
  exactly when the stream is exhausted; otherwise it yields the text before the next
  delimiter and discards the delimiter.
\<close>

function SplitString :: "string \<Rightarrow> char \<Rightarrow> string list" where
  "SplitString string_to_split deliminator =
     (if string_to_split = [] then []
      else
        takeWhile (\<lambda>c. c \<noteq> deliminator) string_to_split #
        SplitString (drop 1 (dropWhile (\<lambda>c. c \<noteq> deliminator) string_to_split)) deliminator)"
  by pat_completeness auto
termination
proof (relation "measure (\<lambda>(s, d). length s)")
  show "wf (measure (\<lambda>(s, d). length s))"
    by simp
next
  fix string_to_split :: string and deliminator :: char
  assume ne: "string_to_split \<noteq> []"
  have "length (dropWhile (\<lambda>c. c \<noteq> deliminator) string_to_split) \<le> length string_to_split"
    by (rule length_dropWhile_le)
  with ne show "((drop 1 (dropWhile (\<lambda>c. c \<noteq> deliminator) string_to_split), deliminator),
      (string_to_split, deliminator)) \<in> measure (\<lambda>(s, d). length s)"
    by (cases string_to_split) (auto simp: le_Suc_eq)
qed

declare SplitString.simps [simp del]

text \<open>
  The property store of the system: a map from keys to values. \<open>property_get\<close> copies the
  value into a buffer of \<open>PROPERTY_VALUE_MAX + 1\<close> zeroed bytes, and uses the default
  when the key is unset or its value is empty. The buffer is then read as a C string.
\<close>

type_synonym props = "string \<rightharpoonup> string"

definition PROPERTY_VALUE_MAX :: nat where
  "PROPERTY_VALUE_MAX = 92"

definition c_str :: "string \<Rightarrow> string" where
  "c_str s = takeWhile (\<lambda>c. c \<noteq> CHR 0x00) s"

definition property_get :: "props \<Rightarrow> string \<Rightarrow> string \<Rightarrow> string" where
  "property_get P key default_value =
     (let v = (case P key of None \<Rightarrow> [] | Some v \<Rightarrow> take (PROPERTY_VALUE_MAX - 1) (c_str v))
      in if v = [] then take (PROPERTY_VALUE_MAX - 1) (c_str default_value) else v)"

text \<open>The loop of the vector reader: \<open>push_back\<close> of every value that parses.\<close>

fun parse_values :: "('f, 'd) float_env \<Rightarrow> string list \<Rightarrow> 'f list \<Rightarrow> 'f list" where
  "parse_values F [] results = results"
| "parse_values F (value # values) results =
     (case StringToFloat F value of
        (True, result) \<Rightarrow> parse_values F values (results @ [result])
      | (False, result) \<Rightarrow> parse_values F values results)"

definition GetProperty_vector ::
  "('f, 'd) float_env \<Rightarrow> props \<Rightarrow> string \<Rightarrow> 'f list \<Rightarrow> 'f list" where
  "GetProperty_vector F P name default_values =
     (let prop = property_get P name [];
          values = SplitString prop (CHR '','');
          results = parse_values F values []
      in if results = [] then default_values else results)"

definition GetProperty_float ::
  "('f, 'd) float_env \<Rightarrow> props \<Rightarrow> string \<Rightarrow> 'f \<Rightarrow> 'f" where
  "GetProperty_float F P name default_value =
     (let prop = property_get P name [] in
      case StringToFloat F prop of
        (True, result) \<Rightarrow> result
      | (False, result) \<Rightarrow> default_value)"

subsection \<open>Derived metric getters\<close>

definition GetInterLensDistance :: "('f, 'd) float_env \<Rightarrow> props \<Rightarrow> 'f" where
  "GetInterLensDistance F P = GetProperty_float F P kLensDistance (f_lit F 0.064)"

definition GetDisplayGap :: "('f, 'd) float_env \<Rightarrow> props \<Rightarrow> 'f" where
  "GetDisplayGap F P = GetProperty_float F P kDisplayGap (f_lit F 0.0)"

definition GetVEyeToDisplay :: "('f, 'd) float_env \<Rightarrow> props \<Rightarrow> 'f" where
  "GetVEyeToDisplay F P = GetProperty_float F P kVEyeToDisplay (f_lit F 0.035)"

text \<open>\<open>v[i]\<close> on a \<open>std::vector\<close>: defined only for \<open>i < v.size()\<close>.\<close>

definition vec_at :: "'a list \<Rightarrow> nat \<Rightarrow> 'a option" where
  "vec_at v i = (if i < length v then Some (v ! i) else None)"

definition default_size :: "('f, 'd) float_env \<Rightarrow> 'f list" where
  "default_size F = [f_lit F 0.0742177, f_lit F 0.131943]"

definition GetDisplaySize :: "('f, 'd) float_env \<Rightarrow> props \<Rightarrow> ('f \<times> 'f) option" where
  "GetDisplaySize F P =
     (let sizes = GetProperty_vector F P kScreenSize (default_size F);
          sizes = (if length sizes \<noteq> 0 then default_size F else sizes)
      in do {
        s0 \<leftarrow> vec_at sizes 0;
        s1 \<leftarrow> vec_at sizes 1;
        Some (s0, s1)
      })"

definition M_PI :: "('f, 'd) float_env \<Rightarrow> 'd" where
  "M_PI F = d_lit F 3.14159265358979323846"

definition fov_defaults :: "('f, 'd) float_env \<Rightarrow> 'f list" where
  "fov_defaults F = [f_lit F 43.7, f_lit F 47.8, f_lit F 54.2, f_lit F 54.2]"

text \<open>\<open>value * M_PI / 180.0f\<close>: both operations are on \<open>double\<close>; the result is stored
  back into the \<open>float\<close> element.\<close>

definition to_radians :: "('f, 'd) float_env \<Rightarrow> 'f \<Rightarrow> 'f" where
  "to_radians F v =
     d_to_f F (d_div F (d_mul F (f_to_d F v) (M_PI F)) (f_to_d F (f_lit F 180.0)))"

definition GetMaxFOVs :: "('f, 'd) float_env \<Rightarrow> props \<Rightarrow> 'f list" where
  "GetMaxFOVs F P =
     (let fovs = GetProperty_vector F P kFovIOBT (fov_defaults F);
          fovs = (if length fovs \<noteq> 4 then fov_defaults F else fovs)
      in map (to_radians F) fovs)"

subsection \<open>The metrics objects\<close>

text \<open>
  Modelled from the spec: the classes \<open>HeadMountMetrics\<close>, \<open>DisplayMetrics\<close>,
  \<open>FieldOfView\<close>, the distortion classes and the enumerations are declared in headers
  that are not among the sources. The spec's data model makes both metrics classes
  immutable value objects that hold what their constructor receives; the records list
  those fields in the order of the constructor calls in the source. Of the
  enumerations, the source names \<open>kCenter\<close>, \<open>kPortrait\<close> and \<open>kCCW0Degrees\<close>.
\<close>

datatype VerticalAlignment = kBottom | kCenter | kTop

datatype DisplayOrientation = kPortrait | kLandscape

datatype EyeOrientation = kCCW0Degrees | kCCW90Degrees | kCCW180Degrees | kCCW270Degrees

datatype 'f FieldOfView = FieldOfView 'f 'f 'f 'f

datatype 'f ColorChannelDistortion =
    PolynomialRadialDistortion 'f "'f list"
  | IdentityDistortion

text \<open>A \<open>std::shared_ptr\<close> is the address of its object in the heap; \<open>new\<close> and
  \<open>std::make_shared\<close> put the object at an address not in use.\<close>

type_synonym addr = nat

type_synonym 'f heap = "'f ColorChannelDistortion list"

definition new_object ::
  "'f ColorChannelDistortion \<Rightarrow> 'f heap \<Rightarrow> addr \<times> 'f heap" where
  "new_object obj h = (length h, h @ [obj])"

record 'f HeadMountMetrics =
  inter_lens_distance :: 'f
  eye_to_display_l :: 'f
  eye_to_display_r :: 'f
  vertical_alignment :: VerticalAlignment
  left_fov :: "'f FieldOfView"
  right_fov :: "'f FieldOfView"
  red_distortion :: addr
  green_distortion :: addr
  blue_distortion :: addr
  left_eye_orientation :: EyeOrientation
  right_eye_orientation :: EyeOrientation
  tray_to_lens_distance :: 'f

record 'f DisplayMetrics =
  size_pixels :: "32 word \<times> 32 word"
  meters_per_pixel :: "'f \<times> 'f"
  border_size :: 'f
  frame_duration :: 'f
  orientation :: DisplayOrientation

definition kDefaultVerticalAlignment :: VerticalAlignment where
  "kDefaultVerticalAlignment = kCenter"

definition kScreenBorderSize :: "('f, 'd) float_env \<Rightarrow> 'f" where
  "kScreenBorderSize F = f_lit F 0.004"

definition kScreenRefreshRate :: "('f, 'd) float_env \<Rightarrow> 'f" where
  "kScreenRefreshRate F = f_lit F 60.0"

definition kDisplayOrientation :: DisplayOrientation where
  "kDisplayOrientation = kPortrait"

subsection \<open>The factories\<close>

definition default_r :: "('f, 'd) float_env \<Rightarrow> 'f list" where
  "default_r F = map (f_lit F)
     [- 4.08519004, 34.70282075, - 67.37781249, 56.97304235,
      - 23.35768685, 4.7199597, 0.63198082]"

definition default_g :: "('f, 'd) float_env \<Rightarrow> 'f list" where
  "default_g F = map (f_lit F)
     [4.43078318, 3.47806617, - 20.58017398, 20.85880414,
      - 8.4046504, 1.61284685, 0.8881761]"

definition default_b :: "('f, 'd) float_env \<Rightarrow> 'f list" where
  "default_b F = map (f_lit F)
     [12.04141265, - 21.98112491, 14.06758389, - 3.15245629,
      0.36549102, 0.05252705, 0.99844279]"

definition default_offsets :: "('f, 'd) float_env \<Rightarrow> 'f list" where
  "default_offsets F = map (f_lit F) [0.20971645238, 0.15189450000, 1.00096958278]"

definition CreateHeadMountMetrics_fov ::
  "('f, 'd) float_env \<Rightarrow> props \<Rightarrow> 'f FieldOfView \<Rightarrow> 'f FieldOfView \<Rightarrow> 'f heap
     \<Rightarrow> ('f HeadMountMetrics \<times> 'f heap) option" where
  "CreateHeadMountMetrics_fov F P l_fov r_fov h =
     (let poly_offsets = GetProperty_vector F P kRGBPolynomialOffset (default_offsets F);
          poly_r = GetProperty_vector F P kRPolynomial (default_r F);
          poly_g = GetProperty_vector F P kGPolynomial (default_g F);
          poly_b = GetProperty_vector F P kBPolynomial (default_b F);
          poly_offsets = (if length poly_offsets \<noteq> 3 then default_offsets F else poly_offsets)
      in do {
        o0 \<leftarrow> vec_at poly_offsets 0;
        let (distortion_r, h) = new_object (PolynomialRadialDistortion o0 poly_r) h;
        o1 \<leftarrow> vec_at poly_offsets 1;
        let (distortion_g, h) = new_object (PolynomialRadialDistortion o1 poly_g) h;
        o2 \<leftarrow> vec_at poly_offsets 2;
        let (distortion_b, h) = new_object (PolynomialRadialDistortion o2 poly_b) h;
        Some (\<lparr>inter_lens_distance = GetInterLensDistance F P,
                eye_to_display_l = GetVEyeToDisplay F P,
                eye_to_display_r = GetVEyeToDisplay F P,
                vertical_alignment = kDefaultVerticalAlignment,
                left_fov = l_fov,
                right_fov = r_fov,
                red_distortion = distortion_r,
                green_distortion = distortion_g,
                blue_distortion = distortion_b,
                left_eye_orientation = kCCW0Degrees,
                right_eye_orientation = kCCW0Degrees,
                tray_to_lens_distance =
                  f_div F (f_sub F (GetInterLensDistance F P) (GetDisplayGap F P)) (f_lit F 2.0)\<rparr>, h)
      })"

definition CreateHeadMountMetrics ::
  "('f, 'd) float_env \<Rightarrow> props \<Rightarrow> 'f heap \<Rightarrow> ('f HeadMountMetrics \<times> 'f heap) option" where
  "CreateHeadMountMetrics F P h =
     (let fovs = GetMaxFOVs F P in
      do {
        f0 \<leftarrow> vec_at fovs 0;
        f1 \<leftarrow> vec_at fovs 1;
        f2 \<leftarrow> vec_at fovs 2;
        f3 \<leftarrow> vec_at fovs 3;
        CreateHeadMountMetrics_fov F P (FieldOfView f1 f0 f2 f3) (FieldOfView f0 f1 f2 f3) h
      })"

definition CreateDisplayMetrics ::
  "('f, 'd) float_env \<Rightarrow> props \<Rightarrow> 32 word \<times> 32 word \<Rightarrow> 'f DisplayMetrics option" where
  "CreateDisplayMetrics F P screen_size =
     do {
       size_in_meters \<leftarrow> GetDisplaySize F P;
       let meters_per_pixel =
             (f_div F (fst size_in_meters) (f_of_int F (sint (fst screen_size))),
              f_div F (snd size_in_meters) (f_of_int F (sint (snd screen_size))));
       Some \<lparr>size_pixels = screen_size,
             meters_per_pixel = meters_per_pixel,
             border_size = kScreenBorderSize F,
             frame_duration = f_div F (f_lit F 1000.0) (kScreenRefreshRate F),
             orientation = kDisplayOrientation\<rparr>
     }"

definition CreateUndistortedHeadMountMetrics_fov ::
  "('f, 'd) float_env \<Rightarrow> props \<Rightarrow> 'f FieldOfView \<Rightarrow> 'f FieldOfView \<Rightarrow> 'f heap
     \<Rightarrow> ('f HeadMountMetrics \<times> 'f heap) option" where
  "CreateUndistortedHeadMountMetrics_fov F P l_fov r_fov h =
     (let (distortion_all, h) = new_object IdentityDistortion h in
      Some (\<lparr>inter_lens_distance = GetInterLensDistance F P,
              eye_to_display_l = GetVEyeToDisplay F P,
              eye_to_display_r = GetVEyeToDisplay F P,
              vertical_alignment = kDefaultVerticalAlignment,
              left_fov = l_fov,
              right_fov = r_fov,
              red_distortion = distortion_all,
              green_distortion = distortion_all,
              blue_distortion = distortion_all,
              left_eye_orientation = kCCW0Degrees,
              right_eye_orientation = kCCW0Degrees,
              tray_to_lens_distance =
                f_div F (f_sub F (GetInterLensDistance F P) (GetDisplayGap F P)) (f_lit F 2.0)\<rparr>, h))"

definition CreateUndistortedHeadMountMetrics ::
  "('f, 'd) float_env \<Rightarrow> props \<Rightarrow> 'f heap \<Rightarrow> ('f HeadMountMetrics \<times> 'f heap) option" where
  "CreateUndistortedHeadMountMetrics F P h =
     (let fovs = GetMaxFOVs F P in
      do {
        f0 \<leftarrow> vec_at fovs 0;
        f1 \<leftarrow> vec_at fovs 1;
        f2 \<leftarrow> vec_at fovs 2;
        f3 \<leftarrow> vec_at fovs 3;
        CreateUndistortedHeadMountMetrics_fov F P
          (FieldOfView f1 f0 f2 f3) (FieldOfView f0 f1 f2 f3) h
      })"

subsection \<open>IEEE 754 arithmetic: an instance of the operations for evaluation\<close>

text \<open>
  A finite binary32 or binary64 value is the rational number it denotes; \<open>None\<close> stands
  for every non-finite value (an infinity, a NaN, the result of a division by zero),
  and the two zeros are identified. Every operation rounds the exact result to the
  nearest value of the format, ties to even. The instance serves to run the model on
  concrete inputs.

  First the rational number a subject sequence of \<open>strtof\<close> denotes.
\<close>

definition digit_value :: "char \<Rightarrow> int" where
  "digit_value c =
     (case map_of (zip ''0123456789abcdef'' [0 .. 15]) (tolower c) of
        None \<Rightarrow> 0
      | Some n \<Rightarrow> n)"

definition digits_value :: "int \<Rightarrow> string \<Rightarrow> int" where
  "digits_value base ds = foldl (\<lambda>a c. a * base + digit_value c) 0 ds"

definition mantissa_value :: "int \<Rightarrow> (char \<Rightarrow> bool) \<Rightarrow> string \<Rightarrow> rat" where
  "mantissa_value base dig s =
     (let ip = takeWhile dig s;
          fp = (case dropWhile dig s of
                  [] \<Rightarrow> []
                | c # r \<Rightarrow> if c = CHR ''.'' then takeWhile dig r else [])
      in of_int (digits_value base (ip @ fp)) / of_int base ^ length fp)"

definition exponent_value :: "char \<Rightarrow> string \<Rightarrow> int" where
  "exponent_value marker s =
     (if scan_exponent marker s = 0 then 0
      else
        (case drop 1 s of
           [] \<Rightarrow> 0
         | d # r \<Rightarrow>
             if d = CHR ''-'' then - digits_value 10 (takeWhile isdigit r)
             else if d = CHR ''+'' then digits_value 10 (takeWhile isdigit r)
             else digits_value 10 (takeWhile isdigit (d # r))))"

definition scaled :: "rat \<Rightarrow> rat \<Rightarrow> int \<Rightarrow> rat" where
  "scaled m b e = (if 0 \<le> e then m * b ^ nat e else m / b ^ nat (- e))"

definition number_value :: "string \<Rightarrow> rat option" where
  "number_value s =
     (if scan_hex s \<noteq> 0 then
        (let body = drop 2 s; m = scan_mantissa isxdigit body in
         Some (scaled (mantissa_value 16 isxdigit body) 2
                 (exponent_value (CHR ''p'') (drop m body))))
      else if scan_decimal s \<noteq> 0 then
        (let m = scan_mantissa isdigit s in
         Some (scaled (mantissa_value 10 isdigit s) 10
                 (exponent_value (CHR ''e'') (drop m s))))
      else None)"

definition subject_value :: "string \<Rightarrow> rat option" where
  "subject_value s =
     (case s of
        [] \<Rightarrow> None
      | c # r \<Rightarrow>
          if c = CHR ''-'' then map_option uminus (number_value r)
          else if c = CHR ''+'' then number_value r
          else number_value s)"

text \<open>
  Rounding to a binary format of precision \<open>p\<close> with exponents from \<open>emin\<close> to \<open>emax\<close>.
  \<open>bit_length n\<close> is the number of binary digits of \<open>n\<close>, and \<open>ilog2 r\<close> the exponent
  \<open>e\<close> with \<open>2 ^ e \<le> r < 2 ^ (e + 1)\<close> of a positive \<open>r\<close>.
\<close>

function bit_length :: "int \<Rightarrow> int" where
  "bit_length n = (if n \<le> 0 then 0 else 1 + bit_length (n div 2))"
  by pat_completeness auto
termination
  by (relation "measure nat") auto

declare bit_length.simps [simp del]

definition ilog2 :: "rat \<Rightarrow> int" where
  "ilog2 r =
     (let (a, b) = quotient_of r;
          d = bit_length a - bit_length b
      in if scaled 1 2 d \<le> r then d else d - 1)"

definition round_half_even :: "rat \<Rightarrow> int" where
  "round_half_even q =
     (let f = \<lfloor>q\<rfloor>; d = q - of_int f
      in if d < 1 / 2 then f else if 1 / 2 < d then f + 1 else if even f then f else f + 1)"

definition round_binary :: "nat \<Rightarrow> int \<Rightarrow> int \<Rightarrow> rat \<Rightarrow> rat option" where
  "round_binary p emin emax r =
     (if r = 0 then Some 0
      else
        (let m = \<bar>r\<bar>;
             e = max (ilog2 m) emin;
             ulp = scaled 1 2 (e - int p + 1);
             v = of_int (round_half_even (m / ulp)) * ulp
         in if emax < ilog2 v then None else Some (sgn r * v)))"

definition binary32 :: "rat \<Rightarrow> rat option" where
  "binary32 = round_binary 24 (- 126) 127"

definition binary64 :: "rat \<Rightarrow> rat option" where
  "binary64 = round_binary 53 (- 1022) 1023"

definition rounded ::
  "(rat \<Rightarrow> rat option) \<Rightarrow> (rat \<Rightarrow> rat \<Rightarrow> rat) \<Rightarrow> rat option \<Rightarrow> rat option \<Rightarrow> rat option" where
  "rounded rnd f a b = (case (a, b) of (Some x, Some y) \<Rightarrow> rnd (f x y) | _ \<Rightarrow> None)"

definition rounded_div ::
  "(rat \<Rightarrow> rat option) \<Rightarrow> rat option \<Rightarrow> rat option \<Rightarrow> rat option" where
  "rounded_div rnd a b =
     (case (a, b) of
        (Some x, Some y) \<Rightarrow> if y = 0 then None else rnd (x / y)
      | _ \<Rightarrow> None)"

definition ieee754 :: "(rat option, rat option) float_env" where
  "ieee754 =
     \<lparr>f_conv = (\<lambda>s. Option.bind (subject_value s) binary32),
      f_lit = binary32,
      f_sub = rounded binary32 (-),
      f_div = rounded_div binary32,
      f_of_int = (\<lambda>i. binary32 (of_int i)),
      f_to_d = (\<lambda>x. x),
      d_to_f = (\<lambda>x. Option.bind x binary32),
      d_lit = binary64,
      d_mul = rounded binary64 (*),
      d_div = rounded_div binary64\<rparr>"

subsection \<open>Auxiliary notions for the properties\<close>

text \<open>The offsets vector after the arity check of \<open>CreateHeadMountMetrics\<close>.\<close>

definition checked_offsets :: "('f, 'd) float_env \<Rightarrow> props \<Rightarrow> 'f list" where
  "checked_offsets F P =
     (let poly_offsets = GetProperty_vector F P kRGBPolynomialOffset (default_offsets F)
      in if length poly_offsets \<noteq> 3 then default_offsets F else poly_offsets)"

text \<open>The two \<open>FieldOfView\<close> objects the argument-less factories build from
  \<open>GetMaxFOVs\<close>.\<close>

definition max_fov_l :: "('f, 'd) float_env \<Rightarrow> props \<Rightarrow> 'f FieldOfView" where
  "max_fov_l F P =
     (let fovs = GetMaxFOVs F P in FieldOfView (fovs ! 1) (fovs ! 0) (fovs ! 2) (fovs ! 3))"

definition max_fov_r :: "('f, 'd) float_env \<Rightarrow> props \<Rightarrow> 'f FieldOfView" where
  "max_fov_r F P =
     (let fovs = GetMaxFOVs F P in FieldOfView (fovs ! 0) (fovs ! 1) (fovs ! 2) (fovs ! 3))"

text \<open>
  Reference equality of the three channels: one address, holding an
  \<open>IdentityDistortion\<close>, allocated by the call (not in use in the heap \<open>h\<close> before the
  call, whose objects are left as they were).
\<close>

definition same_identity_instance ::
  "'f heap \<Rightarrow> ('f HeadMountMetrics \<times> 'f heap) option \<Rightarrow> bool" where
  "same_identity_instance h res =
     (case res of
        None \<Rightarrow> False
      | Some (m, h') \<Rightarrow>
          red_distortion m = green_distortion m \<and> green_distortion m = blue_distortion m
          \<and> vec_at h' (red_distortion m) = Some IdentityDistortion
          \<and> length h \<le> red_distortion m \<and> take (length h) h' = h)"

text \<open>Three pairwise different addresses, each allocated by the call and holding a
  \<open>PolynomialRadialDistortion\<close>.\<close>

definition is_polynomial :: "'f ColorChannelDistortion option \<Rightarrow> bool" where
  "is_polynomial obj =
     (case obj of Some (PolynomialRadialDistortion offset coeffs) \<Rightarrow> True | _ \<Rightarrow> False)"

definition distinct_polynomial_instances ::
  "'f heap \<Rightarrow> ('f HeadMountMetrics \<times> 'f heap) option \<Rightarrow> bool" where
  "distinct_polynomial_instances h res =
     (case res of
        None \<Rightarrow> False
      | Some (m, h') \<Rightarrow>
          distinct [red_distortion m, green_distortion m, blue_distortion m]
          \<and> list_all (\<lambda>a. length h \<le> a \<and> is_polynomial (vec_at h' a))
               [red_distortion m, green_distortion m, blue_distortion m]
          \<and> take (length h) h' = h)"

text \<open>The values of the comma-separated tokens of a property that \<open>StringToFloat\<close>
  accepts, in their order.\<close>

definition parsed_values :: "('f, 'd) float_env \<Rightarrow> props \<Rightarrow> string \<Rightarrow> 'f list" where
  "parsed_values F P name =
     map (\<lambda>t. snd (StringToFloat F t))
       (filter (\<lambda>t. fst (StringToFloat F t)) (SplitString (property_get P name []) (CHR '','')))"

text \<open>The keys read by the scalar reader and those read by the vector reader.\<close>

definition scalar_keys :: "string list" where
  "scalar_keys = [kLensDistance, kDisplayGap, kVEyeToDisplay]"

definition vector_keys :: "string list" where
  "vector_keys =
     [kRGBPolynomialOffset, kRPolynomial, kGPolynomial, kBPolynomial, kFovIOBT, kScreenSize]"

text \<open>
  The spec's words for the vector form: the text is split on commas. \<open>comma_fields\<close>
  are the maximal comma-free pieces of the text, one more than there are commas;
  \<open>comma_tokens\<close> are the tokens the reader sees, the fields without a final empty one.
\<close>

fun comma_fields :: "string \<Rightarrow> string list" where
  "comma_fields [] = [[]]"
| "comma_fields (c # cs) =
     (if c = CHR '','' then [] # comma_fields cs
      else (case comma_fields cs of [] \<Rightarrow> [[c]] | f # fs \<Rightarrow> (c # f) # fs))"

definition comma_tokens :: "string \<Rightarrow> string list" where
  "comma_tokens s = (let fs = comma_fields s in if last fs = [] then butlast fs else fs)"

text \<open>
  The spec's parsing contract: a token parses only if, trimmed of white space, it is
  consumed as a number in its entirety.
\<close>

definition trimmed :: "string \<Rightarrow> string" where
  "trimmed t = dropWhile isspace (rev (dropWhile isspace (rev t)))"

definition parses_whole :: "string \<Rightarrow> bool" where
  "parses_whole t = (let u = trimmed t in u \<noteq> [] \<and> strtof_end u = length u)"

text \<open>
  The values of the tokens of a text that start with a number, in their order: for each
  the value of the prefix that \<open>strtof\<close> consumes.
\<close>

definition accepted_values :: "('f, 'd) float_env \<Rightarrow> string \<Rightarrow> 'f list" where
  "accepted_values F text =
     map (\<lambda>t. f_conv F (dropWhile isspace (take (strtof_end t) t)))
       (filter (\<lambda>t. strtof_end t \<noteq> 0) (comma_tokens text))"

text \<open>
  The spec's words: a fully malformed value. For a scalar key the text does not parse;
  for a vector key none of its tokens parses (by the parsing contract above).
\<close>

definition fully_malformed :: "string \<Rightarrow> string \<Rightarrow> bool" where
  "fully_malformed k v =
     (let prop = take (PROPERTY_VALUE_MAX - 1) (c_str v)
      in if List.member scalar_keys k then \<not> parses_whole prop
         else if List.member vector_keys k
           then list_all (\<lambda>t. \<not> parses_whole t) (comma_tokens prop)
         else True)"

text \<open>
  A value without a number to read: for a scalar key \<open>strtof\<close> consumes nothing of the
  text, for a vector key it consumes nothing of any token.
\<close>

definition rejected_value :: "string \<Rightarrow> string \<Rightarrow> bool" where
  "rejected_value k v =
     (let prop = take (PROPERTY_VALUE_MAX - 1) (c_str v)
      in if List.member scalar_keys k then strtof_end prop = 0
         else if List.member vector_keys k
           then list_all (\<lambda>t. strtof_end t = 0) (comma_tokens prop)
         else True)"

section \<open>Properties\<close>

subsection \<open>Parsing\<close>

text \<open>No scanner reads past the end of its text: \<open>endptr\<close> stays within the string.\<close>

lemma scan_mantissa_le: "scan_mantissa dig s \<le> length s"
proof -
  have l: "length s = length (takeWhile dig s) + length (dropWhile dig s)"
    by (metis length_append takeWhile_dropWhile_id)
  show ?thesis
  proof (cases "dropWhile dig s")
    case Nil
    show ?thesis
      unfolding scan_mantissa_def Let_def Nil by (simp add: length_takeWhile_le)
  next
    case (Cons c r)
    have "length (takeWhile dig r) \<le> length r"
      by (rule length_takeWhile_le)
    with Cons l show ?thesis
      by (simp add: scan_mantissa_def Let_def)
  qed
qed

lemma scan_exponent_le: "scan_exponent m s \<le> length s"
proof (cases s)
  case Nil
  then show ?thesis by (simp add: scan_exponent_def)
next
  case (Cons c r)
  show ?thesis
  proof (cases r)
    case Nil
    with Cons show ?thesis by (simp add: scan_exponent_def)
  next
    case (Cons d r')
    have "length (takeWhile isdigit r') \<le> length r'" "length (takeWhile isdigit r) \<le> length r"
      by (rule length_takeWhile_le)+
    with Cons \<open>s = c # r\<close> show ?thesis
      by (auto simp: scan_exponent_def Let_def)
  qed
qed

lemma scan_decimal_le: "scan_decimal s \<le> length s"
proof -
  have "scan_exponent (CHR ''e'') (drop (scan_mantissa isdigit s) s)
      \<le> length s - scan_mantissa isdigit s"
    using scan_exponent_le [of "CHR ''e''" "drop (scan_mantissa isdigit s) s"] by simp
  with scan_mantissa_le [of isdigit s] show ?thesis
    unfolding scan_decimal_def Let_def by (cases "scan_mantissa isdigit s = 0") simp_all
qed

lemma scan_hex_le: "scan_hex s \<le> length s"
proof (cases "map tolower (take 2 s) = ''0x''")
  case False
  then show ?thesis by (simp add: scan_hex_def)
next
  case True
  then have "length (map tolower (take 2 s)) = 2"
    by simp
  then have two: "2 \<le> length s"
    by simp
  let ?m = "scan_mantissa isxdigit (drop 2 s)"
  have m: "?m \<le> length s - 2"
    using scan_mantissa_le [of isxdigit "drop 2 s"] by simp
  have "scan_exponent (CHR ''p'') (drop (2 + ?m) s) \<le> length s - (2 + ?m)"
    using scan_exponent_le [of "CHR ''p''" "drop (2 + ?m) s"] by simp
  with m two True show ?thesis
    unfolding scan_hex_def Let_def by (cases "?m = 0") simp_all
qed

lemma scan_inf_le: "scan_inf s \<le> length s"
proof -
  have "map tolower (take n s) = t \<Longrightarrow> length t \<le> length s" for n t
    by (metis length_map length_take min.cobounded1)
  from this [of 8 "''infinity''"] this [of 3 "''inf''"] show ?thesis
    by (auto simp: scan_inf_def)
qed

lemma scan_nan_le: "scan_nan s \<le> length s"
proof (cases "map tolower (take 3 s) = ''nan''")
  case False
  then show ?thesis by (simp add: scan_nan_def)
next
  case True
  then have "length (map tolower (take 3 s)) = 3"
    by simp
  then have three: "3 \<le> length s"
    by simp
  show ?thesis
  proof (cases "drop 3 s")
    case Nil
    with True three show ?thesis by (simp add: scan_nan_def)
  next
    case (Cons c r)
    then have len: "length s = 3 + (1 + length r)"
      using three by (metis add_diff_cancel_left' le_add_diff_inverse length_Cons length_drop plus_1_eq_Suc)
    let ?ns = "takeWhile is_nchar r"
    show ?thesis
    proof (cases "drop (length ?ns) r")
      case Nil
      with Cons True three show ?thesis by (simp add: scan_nan_def Let_def)
    next
      case (Cons d r')
      then have "length r = length ?ns + (1 + length r')"
        by (metis add.commute append_take_drop_id length_Cons length_append length_take min.absorb2 length_takeWhile_le plus_1_eq_Suc)
      with Cons \<open>drop 3 s = c # r\<close> True three len show ?thesis
        by (simp add: scan_nan_def Let_def)
    qed
  qed
qed

lemma scan_number_le: "scan_number s \<le> length s"
  using scan_hex_le [of s] scan_decimal_le [of s] scan_inf_le [of s] scan_nan_le [of s]
  by (simp add: scan_number_def Let_def)

lemma strtof_end_le: "strtof_end s \<le> length s"
proof -
  let ?ws = "length (takeWhile isspace s)"
  let ?r = "drop ?ws s"
  have ws: "?ws \<le> length s"
    by (rule length_takeWhile_le)
  show ?thesis
  proof (cases ?r)
    case Nil
    then show ?thesis
      using scan_number_le [of "[]"] by (simp add: strtof_end_def Let_def)
  next
    case (Cons c r')
    then have len: "length s = ?ws + (1 + length r')"
      by (metis ws add.commute le_add_diff_inverse length_Cons length_drop plus_1_eq_Suc)
    have "scan_number r' \<le> length r'" "scan_number (c # r') \<le> 1 + length r'"
      using scan_number_le [of r'] scan_number_le [of "c # r'"] by simp_all
    with Cons len show ?thesis
      by (simp add: strtof_end_def Let_def)
  qed
qed

text \<open>A text that starts with a number still does so when more text follows it.\<close>

lemma takeWhile_append_nonempty:
  "takeWhile p x \<noteq> [] \<Longrightarrow> takeWhile p (x @ t) \<noteq> []"
  by (cases x) (auto split: if_splits)

lemma scan_mantissa_pos_iff:
  "0 < scan_mantissa dig x \<longleftrightarrow>
     takeWhile dig x \<noteq> [] \<or> (\<exists>r. x = CHR ''.'' # r \<and> takeWhile dig r \<noteq> [])"
proof (cases "takeWhile dig x = []")
  case False
  then show ?thesis
    by (auto simp: scan_mantissa_def Let_def split: list.splits)
next
  case True
  then have d: "dropWhile dig x = x"
    by (metis append_Nil takeWhile_dropWhile_id)
  show ?thesis
    using True by (cases x) (auto simp: scan_mantissa_def Let_def d split: list.splits)
qed

lemma scan_mantissa_append:
  assumes "scan_mantissa dig x \<noteq> 0"
  shows "scan_mantissa dig (x @ t) \<noteq> 0"
proof -
  from assms have "0 < scan_mantissa dig x"
    by simp
  then consider "takeWhile dig x \<noteq> []"
    | r where "x = CHR ''.'' # r" "takeWhile dig r \<noteq> []"
    unfolding scan_mantissa_pos_iff by blast
  then show ?thesis
  proof cases
    case 1
    then have "takeWhile dig (x @ t) \<noteq> []"
      by (rule takeWhile_append_nonempty)
    then show ?thesis
      by (simp add: scan_mantissa_pos_iff)
  next
    case 2
    from 2(2) have "takeWhile dig (r @ t) \<noteq> []"
      by (rule takeWhile_append_nonempty)
    with 2(1) show ?thesis
      by (simp add: scan_mantissa_pos_iff)
  qed
qed

lemma map_take_eq_length:
  "map f (take n x) = w \<Longrightarrow> length w = n \<Longrightarrow> n \<le> length x"
  by (metis length_map length_take min_def nat_le_linear)

lemma scan_hex_append:
  assumes "scan_hex x \<noteq> 0"
  shows "scan_hex (x @ t) \<noteq> 0"
proof -
  from assms have p: "map tolower (take 2 x) = ''0x''"
    and m: "scan_mantissa isxdigit (drop 2 x) \<noteq> 0"
    by (auto simp: scan_hex_def Let_def split: if_splits)
  from p have "2 \<le> length x"
    by (rule map_take_eq_length) simp
  then have t: "take 2 (x @ t) = take 2 x" and d: "drop 2 (x @ t) = drop 2 x @ t"
    by simp_all
  from m have "scan_mantissa isxdigit (drop 2 x @ t) \<noteq> 0"
    by (rule scan_mantissa_append)
  with p t d show ?thesis
    by (simp add: scan_hex_def Let_def)
qed

lemma scan_decimal_append:
  assumes "scan_decimal x \<noteq> 0"
  shows "scan_decimal (x @ t) \<noteq> 0"
proof -
  from assms have "scan_mantissa isdigit x \<noteq> 0"
    by (auto simp: scan_decimal_def Let_def split: if_splits)
  then have "scan_mantissa isdigit (x @ t) \<noteq> 0"
    by (rule scan_mantissa_append)
  then show ?thesis
    by (simp add: scan_decimal_def Let_def)
qed

lemma scan_inf_append:
  assumes "scan_inf x \<noteq> 0"
  shows "scan_inf (x @ t) \<noteq> 0"
proof -
  from assms have p: "map tolower (take 3 x) = ''inf''"
  proof (cases "map tolower (take 8 x) = ''infinity''")
    case True
    then have "map tolower (take 3 (take 8 x)) = take 3 ''infinity''"
      by (metis take_map)
    then show ?thesis
      by simp
  next
    case False
    with assms show ?thesis
      by (auto simp: scan_inf_def split: if_splits)
  qed
  from p have "3 \<le> length x"
    by (rule map_take_eq_length) simp
  then have "take 3 (x @ t) = take 3 x"
    by simp
  with p show ?thesis
    by (simp add: scan_inf_def)
qed

lemma scan_nan_append:
  assumes "scan_nan x \<noteq> 0"
  shows "scan_nan (x @ t) \<noteq> 0"
proof -
  from assms have p: "map tolower (take 3 x) = ''nan''"
    by (auto simp: scan_nan_def split: if_splits)
  from p have "3 \<le> length x"
    by (rule map_take_eq_length) simp
  then have "take 3 (x @ t) = take 3 x"
    by simp
  with p show ?thesis
    by (auto simp: scan_nan_def Let_def split: list.splits)
qed

lemma scan_number_pos_iff:
  "scan_number x \<noteq> 0 \<longleftrightarrow>
     scan_hex x \<noteq> 0 \<or> scan_decimal x \<noteq> 0 \<or> scan_inf x \<noteq> 0 \<or> scan_nan x \<noteq> 0"
  by (auto simp: scan_number_def Let_def)

lemma scan_number_append:
  "scan_number x \<noteq> 0 \<Longrightarrow> scan_number (x @ t) \<noteq> 0"
  unfolding scan_number_pos_iff
  using scan_hex_append scan_decimal_append scan_inf_append scan_nan_append by blast

lemma scan_number_Nil: "scan_number [] = 0"
  by code_simp

lemma strtof_end_append:
  assumes "strtof_end s \<noteq> 0"
  shows "strtof_end (s @ t) \<noteq> 0"
proof -
  let ?ws = "length (takeWhile isspace s)"
  define r where "r = drop ?ws s"
  define sg where "sg = (case r of [] \<Rightarrow> 0 | c # _ \<Rightarrow> if is_sign c then 1 else (0::nat))"
  from assms have n: "scan_number (drop sg r) \<noteq> 0"
    by (auto simp: strtof_end_def Let_def r_def sg_def split: if_splits)
  then have rne: "r \<noteq> []"
    by (auto simp: scan_number_Nil)
  then have "dropWhile isspace s \<noteq> []"
    by (simp add: r_def dropWhile_eq_drop)
  then obtain y where y: "y \<in> set s" "\<not> isspace y"
    by (auto simp: dropWhile_eq_Nil_conv)
  then have tw: "takeWhile isspace (s @ t) = takeWhile isspace s"
    by (simp add: takeWhile_append1)
  have ws: "?ws \<le> length s"
    by (rule length_takeWhile_le)
  then have r': "drop ?ws (s @ t) = r @ t"
    by (simp add: r_def)
  from rne obtain c r0 where c: "r = c # r0"
    by (cases r) auto
  have sg': "(case r @ t of [] \<Rightarrow> 0 | c # _ \<Rightarrow> if is_sign c then 1 else (0::nat)) = sg"
    by (simp add: sg_def c)
  have "sg \<le> length r"
    by (simp add: sg_def c)
  then have d: "drop sg (r @ t) = drop sg r @ t"
    by simp
  have "strtof_end (s @ t) =
      (if scan_number (drop sg r @ t) = 0 then 0
       else ?ws + sg + scan_number (drop sg r @ t))"
    unfolding strtof_end_def Let_def tw r' sg' d ..
  moreover from n have "scan_number (drop sg r @ t) \<noteq> 0"
    by (rule scan_number_append)
  ultimately show ?thesis
    by simp
qed

lemma StringToFloat_fst: "fst (StringToFloat F s) = (strtof_end s \<noteq> 0)"
  by (simp add: StringToFloat_def strtof_def Let_def)

lemma StringToFloat_snd:
  "snd (StringToFloat F s) =
     (if strtof_end s = 0 then f_lit F 0
      else f_conv F (dropWhile isspace (take (strtof_end s) s)))"
  by (simp add: StringToFloat_def strtof_def Let_def)

lemma parse_values_filter:
  "parse_values F vs acc =
     acc @ map (\<lambda>v. snd (StringToFloat F v)) (filter (\<lambda>v. fst (StringToFloat F v)) vs)"
proof (induction vs arbitrary: acc)
  case Nil
  show ?case by simp
next
  case (Cons v vs)
  show ?case
  proof (cases "StringToFloat F v")
    case (Pair ok r)
    then show ?thesis using Cons.IH by (cases ok) simp_all
  qed
qed

lemma GetProperty_vector_nonempty:
  "d \<noteq> [] \<Longrightarrow> GetProperty_vector F P name d \<noteq> []"
  by (simp add: GetProperty_vector_def Let_def)

text \<open>The tokens of \<open>SplitString\<close> are the comma-separated fields of the text, a final
  empty field left out.\<close>

lemma comma_fields_nonempty: "comma_fields s \<noteq> []"
  by (induction s) (auto split: list.splits)

lemma comma_fields_unfold:
  "comma_fields s =
     takeWhile (\<lambda>c. c \<noteq> CHR '','') s #
     (case dropWhile (\<lambda>c. c \<noteq> CHR '','') s of [] \<Rightarrow> [] | c # r \<Rightarrow> comma_fields r)"
proof (induction s)
  case Nil
  show ?case by simp
next
  case (Cons a s)
  show ?case
  proof (cases "a = CHR '',''")
    case True
    then show ?thesis by simp
  next
    case False
    then show ?thesis
      using Cons.IH comma_fields_nonempty [of s] by (simp split: list.splits)
  qed
qed

lemma SplitString_comma_tokens: "SplitString s (CHR '','') = comma_tokens s"
proof (induction s "CHR '',''" rule: SplitString.induct)
  case (1 s)
  show ?case
  proof (cases "s = []")
    case True
    then show ?thesis
      by (simp add: SplitString.simps comma_tokens_def)
  next
    case False
    let ?t = "takeWhile (\<lambda>c. c \<noteq> CHR '','') s"
    let ?rest = "dropWhile (\<lambda>c. c \<noteq> CHR '','') s"
    have split: "SplitString s (CHR '','') = ?t # SplitString (drop 1 ?rest) (CHR '','')"
      using False by (subst SplitString.simps) simp
    have ih: "SplitString (drop 1 ?rest) (CHR '','') = comma_tokens (drop 1 ?rest)"
      using False by (rule "1.hyps")
    show ?thesis
    proof (cases ?rest)
      case Nil
      then have "?t = s"
        by (metis append_Nil2 takeWhile_dropWhile_id)
      have f: "comma_fields s = [s]"
        by (subst comma_fields_unfold) (simp add: Nil \<open>?t = s\<close>)
      have "SplitString s (CHR '','') = [s]"
        unfolding split Nil using \<open>?t = s\<close> by (simp add: SplitString.simps)
      moreover have "comma_tokens s = [s]"
        using False by (simp add: comma_tokens_def Let_def f)
      ultimately show ?thesis
        by simp
    next
      case (Cons c r)
      have f: "comma_fields s = ?t # comma_fields r"
        by (subst comma_fields_unfold) (simp add: Cons)
      have "comma_tokens s = ?t # comma_tokens r"
        using comma_fields_nonempty [of r] by (simp add: comma_tokens_def Let_def f)
      moreover have "SplitString s (CHR '','') = ?t # comma_tokens r"
        using ih unfolding split Cons by simp
      ultimately show ?thesis
        by simp
    qed
  qed
qed

lemma GetProperty_vector_accepted:
  "GetProperty_vector F P name d =
     (if accepted_values F (property_get P name []) = [] then d
      else accepted_values F (property_get P name []))"
proof -
  have "map (\<lambda>v. snd (StringToFloat F v)) (filter (\<lambda>v. fst (StringToFloat F v)) ts)
      = map (\<lambda>t. f_conv F (dropWhile isspace (take (strtof_end t) t)))
          (filter (\<lambda>t. strtof_end t \<noteq> 0) ts)" for ts
    by (induction ts) (simp_all add: StringToFloat_fst StringToFloat_snd)
  then show ?thesis
    by (simp add: GetProperty_vector_def Let_def parse_values_filter accepted_values_def
        SplitString_comma_tokens)
qed

text \<open>A token that the parsing contract of the spec takes as a number is accepted by
  \<open>strtof\<close>.\<close>

lemma takeWhile_dropWhile_same: "takeWhile p (dropWhile p t) = []"
  by (induction t) auto

lemma strtof_end_dropWhile:
  assumes "strtof_end (dropWhile isspace t) \<noteq> 0"
  shows "strtof_end t \<noteq> 0"
proof -
  let ?u = "dropWhile isspace t"
  have u: "drop (length (takeWhile isspace t)) t = ?u"
    by (simp add: dropWhile_eq_drop)
  have "strtof_end ?u =
      (let sg = (case ?u of [] \<Rightarrow> 0 | c # _ \<Rightarrow> if is_sign c then 1 else (0::nat));
           n = scan_number (drop sg ?u)
       in if n = 0 then 0 else sg + n)"
    by (simp add: strtof_end_def takeWhile_dropWhile_same Let_def)
  moreover have "strtof_end t =
      (let sg = (case ?u of [] \<Rightarrow> 0 | c # _ \<Rightarrow> if is_sign c then 1 else (0::nat));
           n = scan_number (drop sg ?u)
       in if n = 0 then 0 else length (takeWhile isspace t) + sg + n)"
    unfolding strtof_end_def u Let_def ..
  ultimately show ?thesis
    using assms by (auto simp: Let_def split: if_splits)
qed

lemma parses_whole_accepted:
  assumes "parses_whole t"
  shows "strtof_end t \<noteq> 0"
proof -
  let ?m = "rev (dropWhile isspace (rev t))"
  let ?tr = "rev (takeWhile isspace (rev t))"
  have t: "t = ?m @ ?tr"
    by (metis rev_append rev_rev_ident takeWhile_dropWhile_id)
  from assms have "strtof_end (dropWhile isspace ?m) \<noteq> 0"
    by (auto simp: parses_whole_def trimmed_def Let_def)
  then have "strtof_end ?m \<noteq> 0"
    by (rule strtof_end_dropWhile)
  then have "strtof_end (?m @ ?tr) \<noteq> 0"
    by (rule strtof_end_append)
  with t show ?thesis
    by simp
qed

lemma filter_parses_whole_accepted:
  "filter parses_whole (filter (\<lambda>t. strtof_end t \<noteq> 0) ts) = filter parses_whole ts"
  by (induction ts) (auto dest: parses_whole_accepted)

text \<open>
  Claim C5, counterexample. The text \<open>"1,2x,3"\<close> has three tokens, of which two parse
  by the parsing contract (\<open>2x\<close> is not a number in its entirety); the vector reader
  returns three values, the second read from the prefix of \<open>2x\<close>.
\<close>

theorem vector_reader_accepts_partial_token:
  "comma_tokens ''1,2x,3'' = [''1'', ''2x'', ''3'']
   \<and> filter parses_whole (comma_tokens ''1,2x,3'') = [''1'', ''3'']
   \<and> GetProperty_vector ieee754 [kRPolynomial \<mapsto> ''1,2x,3''] kRPolynomial (default_r ieee754)
     = [Some 1, Some 2, Some 3]"
proof -
  have a: "comma_tokens ''1,2x,3'' = [''1'', ''2x'', ''3'']"
    by code_simp
  have b: "filter parses_whole (comma_tokens ''1,2x,3'') = [''1'', ''3'']"
    by code_simp
  have g: "GetProperty_vector ieee754 [kRPolynomial \<mapsto> ''1,2x,3''] kRPolynomial
      (default_r ieee754) = [Some 1, Some 2, Some 3]"
    by code_simp
  from a b g show ?thesis
    by blast
qed

text \<open>
  Claim C5, amended. The tokens are the comma-separated fields of the text, a final
  empty field left out. The vector reader returns, in their order of appearance, the
  values of the tokens that start (after optional white space) with a number, each read
  from the prefix that \<open>strtof\<close> consumes; every token that is a number in its
  entirety is among them. When no token starts with a number, the reader returns the
  caller's default vector.
\<close>

theorem vector_reader_returns_prefix_values:
  "GetProperty_vector F P name d =
     (let tokens = comma_tokens (property_get P name []);
          accepted = filter (\<lambda>t. strtof_end t \<noteq> 0) tokens
      in if accepted = [] then d
         else map (\<lambda>t. f_conv F (dropWhile isspace (take (strtof_end t) t))) accepted)
   \<and> filter parses_whole (filter (\<lambda>t. strtof_end t \<noteq> 0) (comma_tokens text))
     = filter parses_whole (comma_tokens text)"
proof -
  have "GetProperty_vector F P name d =
     (let tokens = comma_tokens (property_get P name []);
          accepted = filter (\<lambda>t. strtof_end t \<noteq> 0) tokens
      in if accepted = [] then d
         else map (\<lambda>t. f_conv F (dropWhile isspace (take (strtof_end t) t))) accepted)"
    by (simp add: GetProperty_vector_accepted accepted_values_def Let_def)
  with filter_parses_whole_accepted [of "comma_tokens text"] show ?thesis
    by blast
qed

subsection \<open>The display size\<close>

lemma GetDisplaySize_default:
  "GetDisplaySize F P = Some (f_lit F 0.0742177, f_lit F 0.131943)"
proof -
  have ne: "default_size F \<noteq> []"
    by (simp add: default_size_def)
  have "GetProperty_vector F P kScreenSize (default_size F) \<noteq> []"
    using ne by (rule GetProperty_vector_nonempty)
  then show ?thesis
    by (simp add: GetDisplaySize_def Let_def vec_at_def default_size_def)
qed

lemma f_conv_ieee754: "f_conv ieee754 s = Option.bind (subject_value s) binary32"
  by (simp add: ieee754_def)

lemma f_lit_ieee754: "f_lit ieee754 r = binary32 r"
  by (simp add: ieee754_def)

text \<open>
  Claim C1, at the input \<open>persist.dvr.screen_size = "0.5,0.25"\<close>: the vector reader
  returns the two configured components, and \<open>GetDisplaySize\<close> returns the compiled-in
  default all the same. In binary32 the configured size is \<open>(0.5, 0.25)\<close> and the size
  returned is the default.
\<close>

theorem GetDisplaySize_drops_configured_size:
  "GetProperty_vector F [kScreenSize \<mapsto> ''0.5,0.25''] kScreenSize (default_size F)
     = [f_conv F ''0.5'', f_conv F ''0.25'']
   \<and> GetDisplaySize F [kScreenSize \<mapsto> ''0.5,0.25'']
     = Some (f_lit F 0.0742177, f_lit F 0.131943)
   \<and> GetProperty_vector ieee754 [kScreenSize \<mapsto> ''0.5,0.25''] kScreenSize
       (default_size ieee754)
     = [Some (1 / 2), Some (1 / 4)]
   \<and> GetDisplaySize ieee754 [kScreenSize \<mapsto> ''0.5,0.25'']
     = Some (Some (9961331 / 134217728), Some (8854545 / 67108864))"
proof -
  have split: "SplitString ''0.5,0.25'' (CHR '','') = [''0.5'', ''0.25'']"
    by (simp add: SplitString.simps)
  have e1: "strtof_end ''0.5'' = 3"
    by code_simp
  have e2: "strtof_end ''0.25'' = 4"
    by code_simp
  have v: "GetProperty_vector F [kScreenSize \<mapsto> ''0.5,0.25''] kScreenSize (default_size F)
     = [f_conv F ''0.5'', f_conv F ''0.25'']" for F :: "('f, 'd) float_env"
    by (simp add: GetProperty_vector_def property_get_def c_str_def PROPERTY_VALUE_MAX_def
        split StringToFloat_def strtof_def e1 e2 isspace_def)
  have c1: "Option.bind (subject_value ''0.5'') binary32 = Some (1 / 2)"
    by code_simp
  have c2: "Option.bind (subject_value ''0.25'') binary32 = Some (1 / 4)"
    by code_simp
  have d1: "binary32 0.0742177 = Some (9961331 / 134217728)"
    by code_simp
  have d2: "binary32 0.131943 = Some (8854545 / 67108864)"
    by code_simp
  show ?thesis
    using c1 c2 d1 d2 by (simp add: v GetDisplaySize_default f_conv_ieee754 f_lit_ieee754)
qed

text \<open>
  Claim C2. Whatever the property store holds, the vector reader hands
  \<open>GetDisplaySize\<close> a nonempty vector, the test \<open>sizes.size() != 0\<close> succeeds, and the
  result is the compiled-in default size.
\<close>

theorem GetDisplaySize_always_default:
  "GetProperty_vector F P kScreenSize (default_size F) \<noteq> []
   \<and> GetDisplaySize F P = Some (f_lit F 0.0742177, f_lit F 0.131943)"
  by (simp add: GetDisplaySize_default GetProperty_vector_nonempty default_size_def)

subsection \<open>The scalar reader\<close>

lemma property_get_unset: "property_get (P(name := None)) name [] = []"
  by (simp add: property_get_def c_str_def)

lemma SplitString_Nil: "SplitString [] d = []"
  by (simp add: SplitString.simps)

lemma GetProperty_float_eq:
  "GetProperty_float F P name d =
     (let prop = property_get P name []; e = strtof_end prop
      in if e = 0 then d else f_conv F (dropWhile isspace (take e prop)))"
  by (simp add: GetProperty_float_def StringToFloat_def strtof_def Let_def)

text \<open>
  Claim C3, counterexample. For the text \<open>"1.5abc"\<close> \<open>strtof\<close> stops after \<open>"1.5"\<close>,
  three characters into the six; \<open>StringToFloat\<close> reports success, and the scalar reader
  behind \<open>GetInterLensDistance\<close> returns 1.5 where its default is the binary32 value of
  0.064.
\<close>

theorem scalar_reader_accepts_numeric_prefix:
  "StringToFloat ieee754 ''1.5abc'' = (True, Some (3 / 2))
   \<and> snd (strtof ieee754 ''1.5abc'') = 3
   \<and> GetInterLensDistance ieee754 [kLensDistance \<mapsto> ''1.5abc''] = Some (3 / 2)
   \<and> GetInterLensDistance ieee754 Map.empty = Some (8589935 / 134217728)"
proof -
  have e: "strtof_end ''1.5abc'' = 3"
    by code_simp
  have e0: "strtof_end [] = 0"
    by code_simp
  have c: "Option.bind (subject_value ''1.5'') binary32 = Some (3 / 2)"
    by code_simp
  have d: "binary32 0.064 = Some (8589935 / 134217728)"
    by code_simp
  have p: "property_get [kLensDistance \<mapsto> ''1.5abc''] kLensDistance [] = ''1.5abc''"
    by (simp add: property_get_def c_str_def PROPERTY_VALUE_MAX_def)
  have p0: "property_get Map.empty kLensDistance [] = []"
    by (simp add: property_get_def c_str_def)
  show ?thesis
    using c d
    by (simp add: GetInterLensDistance_def GetProperty_float_eq p p0 StringToFloat_def
        strtof_def e e0 f_conv_ieee754 f_lit_ieee754 isspace_def)
qed

text \<open>
  Claim C3, amended. The scalar reader takes the text as parsed exactly when \<open>strtof\<close>
  consumes at least one character, that is when the text starts (after optional white
  space) with a number. It then returns the value of the consumed prefix, whatever
  follows it: a text that is accepted stays accepted when any text is appended, and
  \<open>"1.5abc"\<close> is read as \<open>"1.5"\<close>. It returns the caller's default exactly when nothing
  is consumed, as for \<open>"abc"\<close> and for the empty text.
\<close>

theorem GetProperty_float_numeric_prefix:
  "GetProperty_float F P name d =
     (let prop = property_get P name []; e = strtof_end prop
      in if e = 0 then d else f_conv F (dropWhile isspace (take e prop)))
   \<and> strtof_end (property_get P name []) \<le> length (property_get P name [])
   \<and> (strtof_end s \<noteq> 0 \<longrightarrow> strtof_end (s @ t) \<noteq> 0)
   \<and> strtof_end ''1.5abc'' = 3
   \<and> strtof_end ''abc'' = 0
   \<and> strtof_end [] = 0"
proof -
  have "strtof_end ''1.5abc'' = 3" "strtof_end ''abc'' = 0" "strtof_end [] = 0"
    by code_simp+
  moreover have "strtof_end s \<noteq> 0 \<longrightarrow> strtof_end (s @ t) \<noteq> 0"
    using strtof_end_append by blast
  ultimately show ?thesis
    by (simp add: GetProperty_float_eq strtof_end_le)
qed

theorem GetProperty_float_numeric_prefix_witness:
  "strtof_end ''1.5'' \<noteq> 0
   \<and> strtof_end (''1.5'' @ ''abc'') \<noteq> 0
   \<and> GetProperty_float ieee754 [kLensDistance \<mapsto> ''1.5abc''] kLensDistance
       (f_lit ieee754 0.064) = Some (3 / 2)"
proof -
  have h: "strtof_end ''1.5'' \<noteq> 0"
    by code_simp
  note t = GetProperty_float_numeric_prefix [of ieee754 "[kLensDistance \<mapsto> ''1.5abc'']"
      kLensDistance "f_lit ieee754 0.064" "''1.5''" "''abc''"]
  from t h have a: "strtof_end (''1.5'' @ ''abc'') \<noteq> 0"
    by blast
  have p: "property_get [kLensDistance \<mapsto> ''1.5abc''] kLensDistance [] = ''1.5abc''"
    by (simp add: property_get_def c_str_def PROPERTY_VALUE_MAX_def)
  have e: "strtof_end ''1.5abc'' = 3"
    by code_simp
  have c: "Option.bind (subject_value ''1.5'') binary32 = Some (3 / 2)"
    by code_simp
  from t have "GetProperty_float ieee754 [kLensDistance \<mapsto> ''1.5abc''] kLensDistance
      (f_lit ieee754 0.064) =
     (let prop = property_get [kLensDistance \<mapsto> ''1.5abc''] kLensDistance [];
          e = strtof_end prop
      in if e = 0 then f_lit ieee754 0.064
         else f_conv ieee754 (dropWhile isspace (take e prop)))"
    by blast
  then have b: "GetProperty_float ieee754 [kLensDistance \<mapsto> ''1.5abc''] kLensDistance
      (f_lit ieee754 0.064) = Some (3 / 2)"
    using c by (simp add: p e f_conv_ieee754 isspace_def)
  from h a b show ?thesis
    by blast
qed

subsection \<open>The field of view\<close>

lemma fov_defaults_length: "length (fov_defaults F) = 4"
  by (simp add: fov_defaults_def)

lemma GetMaxFOVs_length: "length (GetMaxFOVs F P) = 4"
  by (simp add: GetMaxFOVs_def Let_def fov_defaults_length)

lemma to_radians_eq:
  "to_radians F =
     (\<lambda>v. d_to_f F (d_div F (d_mul F (f_to_d F v) (d_lit F 3.14159265358979323846))
                     (f_to_d F (f_lit F 180))))"
  by (rule ext) (simp add: to_radians_def M_PI_def)


subsection \<open>The display metrics\<close>

text \<open>
  Claim C9. For every resolution \<open>(w, h)\<close> \<open>CreateDisplayMetrics\<close> returns an object
  holding the resolution, the physical size of \<open>GetDisplaySize\<close> divided componentwise
  by \<open>(w, h)\<close>, the border 0.004, the frame period \<open>1000 / 60\<close> and the portrait
  orientation. For 1000 by 1000 pixels the quotients are, in binary32, the values of
  \<open>7.42177e-5\<close> and \<open>1.31943e-4\<close>.
\<close>

theorem CreateDisplayMetrics_fields:
  "CreateDisplayMetrics F P (w, h) =
     map_option
       (\<lambda>(sx, sy).
          \<lparr>size_pixels = (w, h),
           meters_per_pixel = (f_div F sx (f_of_int F (sint w)), f_div F sy (f_of_int F (sint h))),
           border_size = f_lit F 0.004,
           frame_duration = f_div F (f_lit F 1000) (f_lit F 60),
           orientation = kPortrait\<rparr>)
       (GetDisplaySize F P)
   \<and> CreateDisplayMetrics F P (w, h) \<noteq> None
   \<and> map_option meters_per_pixel (CreateDisplayMetrics ieee754 P (1000, 1000)) =
       Some (f_lit ieee754 0.0000742177, f_lit ieee754 0.000131943)"
proof -
  have s: "sint (1000 :: 32 word) = 1000"
    by simp
  have x: "rounded_div binary32 (binary32 0.0742177) (binary32 (of_int 1000))
      = binary32 0.0000742177"
    by code_simp
  have y: "rounded_div binary32 (binary32 0.131943) (binary32 (of_int 1000))
      = binary32 0.000131943"
    by code_simp
  have "map_option meters_per_pixel (CreateDisplayMetrics ieee754 P (1000, 1000)) =
       Some (f_lit ieee754 0.0000742177, f_lit ieee754 0.000131943)"
    using x y
    by (simp add: CreateDisplayMetrics_def GetDisplaySize_default s f_lit_ieee754)
      (simp add: ieee754_def)
  then show ?thesis
    by (simp add: CreateDisplayMetrics_def GetDisplaySize_default kScreenBorderSize_def
        kScreenRefreshRate_def kDisplayOrientation_def)
qed

subsection \<open>The head-mount metrics\<close>

lemma checked_offsets_length: "length (checked_offsets F P) = 3"
  by (simp add: checked_offsets_def Let_def default_offsets_def)

lemma CreateHeadMountMetrics_fov_eq:
  "CreateHeadMountMetrics_fov F P l_fov r_fov h =
     Some (\<lparr>inter_lens_distance = GetInterLensDistance F P,
             eye_to_display_l = GetVEyeToDisplay F P,
             eye_to_display_r = GetVEyeToDisplay F P,
             vertical_alignment = kCenter,
             left_fov = l_fov,
             right_fov = r_fov,
             red_distortion = length h,
             green_distortion = length h + 1,
             blue_distortion = length h + 2,
             left_eye_orientation = kCCW0Degrees,
             right_eye_orientation = kCCW0Degrees,
             tray_to_lens_distance =
               f_div F (f_sub F (GetInterLensDistance F P) (GetDisplayGap F P)) (f_lit F 2)\<rparr>,
           h @ [PolynomialRadialDistortion (checked_offsets F P ! 0)
                  (GetProperty_vector F P kRPolynomial (default_r F)),
                PolynomialRadialDistortion (checked_offsets F P ! 1)
                  (GetProperty_vector F P kGPolynomial (default_g F)),
                PolynomialRadialDistortion (checked_offsets F P ! 2)
                  (GetProperty_vector F P kBPolynomial (default_b F))])"
proof -
  have len: "length (checked_offsets F P) = 3"
    by (rule checked_offsets_length)
  have unf: "CreateHeadMountMetrics_fov F P l_fov r_fov h =
     (let poly_offsets = checked_offsets F P;
          poly_r = GetProperty_vector F P kRPolynomial (default_r F);
          poly_g = GetProperty_vector F P kGPolynomial (default_g F);
          poly_b = GetProperty_vector F P kBPolynomial (default_b F)
      in do {
        o0 \<leftarrow> vec_at poly_offsets 0;
        let (distortion_r, h) = new_object (PolynomialRadialDistortion o0 poly_r) h;
        o1 \<leftarrow> vec_at poly_offsets 1;
        let (distortion_g, h) = new_object (PolynomialRadialDistortion o1 poly_g) h;
        o2 \<leftarrow> vec_at poly_offsets 2;
        let (distortion_b, h) = new_object (PolynomialRadialDistortion o2 poly_b) h;
        Some (\<lparr>inter_lens_distance = GetInterLensDistance F P,
                eye_to_display_l = GetVEyeToDisplay F P,
                eye_to_display_r = GetVEyeToDisplay F P,
                vertical_alignment = kDefaultVerticalAlignment,
                left_fov = l_fov,
                right_fov = r_fov,
                red_distortion = distortion_r,
                green_distortion = distortion_g,
                blue_distortion = distortion_b,
                left_eye_orientation = kCCW0Degrees,
                right_eye_orientation = kCCW0Degrees,
                tray_to_lens_distance =
                  f_div F (f_sub F (GetInterLensDistance F P) (GetDisplayGap F P)) (f_lit F 2.0)\<rparr>, h)
      })"
    unfolding CreateHeadMountMetrics_fov_def checked_offsets_def Let_def ..
  have at: "vec_at (checked_offsets F P) 0 = Some (checked_offsets F P ! 0)"
    "vec_at (checked_offsets F P) (Suc 0) = Some (checked_offsets F P ! 1)"
    "vec_at (checked_offsets F P) 2 = Some (checked_offsets F P ! 2)"
    using len by (auto simp: vec_at_def)
  show ?thesis
    unfolding unf
    by (simp add: Let_def at new_object_def kDefaultVerticalAlignment_def)
qed

lemma CreateUndistortedHeadMountMetrics_fov_eq:
  "CreateUndistortedHeadMountMetrics_fov F P l_fov r_fov h =
     Some (\<lparr>inter_lens_distance = GetInterLensDistance F P,
             eye_to_display_l = GetVEyeToDisplay F P,
             eye_to_display_r = GetVEyeToDisplay F P,
             vertical_alignment = kCenter,
             left_fov = l_fov,
             right_fov = r_fov,
             red_distortion = length h,
             green_distortion = length h,
             blue_distortion = length h,
             left_eye_orientation = kCCW0Degrees,
             right_eye_orientation = kCCW0Degrees,
             tray_to_lens_distance =
               f_div F (f_sub F (GetInterLensDistance F P) (GetDisplayGap F P)) (f_lit F 2)\<rparr>,
           h @ [IdentityDistortion])"
  by (simp add: CreateUndistortedHeadMountMetrics_fov_def new_object_def
      kDefaultVerticalAlignment_def)

lemma vec_at_GetMaxFOVs:
  "vec_at (GetMaxFOVs F P) 0 = Some (GetMaxFOVs F P ! 0)"
  "vec_at (GetMaxFOVs F P) (Suc 0) = Some (GetMaxFOVs F P ! 1)"
  "vec_at (GetMaxFOVs F P) 2 = Some (GetMaxFOVs F P ! 2)"
  "vec_at (GetMaxFOVs F P) 3 = Some (GetMaxFOVs F P ! 3)"
  using GetMaxFOVs_length [of F P] by (auto simp: vec_at_def)

lemma CreateHeadMountMetrics_eq:
  "CreateHeadMountMetrics F P h =
     CreateHeadMountMetrics_fov F P (max_fov_l F P) (max_fov_r F P) h"
  by (simp add: CreateHeadMountMetrics_def max_fov_l_def max_fov_r_def Let_def
      vec_at_GetMaxFOVs)

lemma CreateUndistortedHeadMountMetrics_eq:
  "CreateUndistortedHeadMountMetrics F P h =
     CreateUndistortedHeadMountMetrics_fov F P (max_fov_l F P) (max_fov_r F P) h"
  by (simp add: CreateUndistortedHeadMountMetrics_def max_fov_l_def max_fov_r_def Let_def
      vec_at_GetMaxFOVs)

text \<open>
  Claim C6. Both \<open>CreateUndistortedHeadMountMetrics\<close> overloads return metrics whose
  three channel references are one and the same address, that of a new
  \<open>IdentityDistortion\<close>; both \<open>CreateHeadMountMetrics\<close> overloads return metrics whose
  three references are pairwise different addresses of new \<open>PolynomialRadialDistortion\<close>
  objects.
\<close>

theorem distortion_instances:
  "same_identity_instance h (CreateUndistortedHeadMountMetrics_fov F P l_fov r_fov h)
   \<and> same_identity_instance h (CreateUndistortedHeadMountMetrics F P h)
   \<and> distinct_polynomial_instances h (CreateHeadMountMetrics_fov F P l_fov r_fov h)
   \<and> distinct_polynomial_instances h (CreateHeadMountMetrics F P h)"
  by (simp add: CreateHeadMountMetrics_eq CreateUndistortedHeadMountMetrics_eq
      CreateHeadMountMetrics_fov_eq CreateUndistortedHeadMountMetrics_fov_eq
      same_identity_instance_def distinct_polynomial_instances_def vec_at_def
      is_polynomial_def nth_append)

lemma GetProperty_float_parsed:
  "StringToFloat F (property_get P name []) = (True, x) \<Longrightarrow> GetProperty_float F P name d = x"
  by (simp add: GetProperty_float_def)

text \<open>
  Claim C8. When the text of \<open>persist.dvr.lens_distance\<close> parses to \<open>D\<close> and that of
  \<open>persist.dvr.display_gap\<close> parses to \<open>G\<close>, the tray-to-lens offset stored by each of
  the four head-mount factories is \<open>(D - G) / 2\<close>, computed in \<open>float\<close>.
\<close>

theorem tray_to_lens_offset:
  assumes "StringToFloat F (property_get P kLensDistance []) = (True, D)"
    and "StringToFloat F (property_get P kDisplayGap []) = (True, G)"
  shows "map_option (tray_to_lens_distance \<circ> fst) (CreateHeadMountMetrics_fov F P l_fov r_fov h)
           = Some (f_div F (f_sub F D G) (f_lit F 2))
         \<and> map_option (tray_to_lens_distance \<circ> fst) (CreateHeadMountMetrics F P h)
           = Some (f_div F (f_sub F D G) (f_lit F 2))
         \<and> map_option (tray_to_lens_distance \<circ> fst)
             (CreateUndistortedHeadMountMetrics_fov F P l_fov r_fov h)
           = Some (f_div F (f_sub F D G) (f_lit F 2))
         \<and> map_option (tray_to_lens_distance \<circ> fst) (CreateUndistortedHeadMountMetrics F P h)
           = Some (f_div F (f_sub F D G) (f_lit F 2))"
proof -
  have "GetInterLensDistance F P = D"
    using assms(1) by (simp add: GetInterLensDistance_def GetProperty_float_parsed)
  moreover have "GetDisplayGap F P = G"
    using assms(2) by (simp add: GetDisplayGap_def GetProperty_float_parsed)
  ultimately show ?thesis
    by (simp add: CreateHeadMountMetrics_eq CreateUndistortedHeadMountMetrics_eq
        CreateHeadMountMetrics_fov_eq CreateUndistortedHeadMountMetrics_fov_eq)
qed

theorem tray_to_lens_offset_witness:
  "StringToFloat ieee754
       (property_get [kLensDistance \<mapsto> ''0.0625'', kDisplayGap \<mapsto> ''0.03125'']
          kLensDistance []) = (True, Some (1 / 16))
   \<and> StringToFloat ieee754
       (property_get [kLensDistance \<mapsto> ''0.0625'', kDisplayGap \<mapsto> ''0.03125'']
          kDisplayGap []) = (True, Some (1 / 32))
   \<and> map_option (tray_to_lens_distance \<circ> fst)
       (CreateHeadMountMetrics ieee754
          [kLensDistance \<mapsto> ''0.0625'', kDisplayGap \<mapsto> ''0.03125''] [])
       = Some (Some (1 / 64))
   \<and> map_option (tray_to_lens_distance \<circ> fst)
       (CreateUndistortedHeadMountMetrics ieee754
          [kLensDistance \<mapsto> ''0.0625'', kDisplayGap \<mapsto> ''0.03125''] [])
       = Some (Some (1 / 64))"
proof -
  let ?P = "[kLensDistance \<mapsto> ''0.0625'', kDisplayGap \<mapsto> ''0.03125'']"
  have d: "StringToFloat ieee754 (property_get ?P kLensDistance []) = (True, Some (1 / 16))"
    by code_simp
  have g: "StringToFloat ieee754 (property_get ?P kDisplayGap []) = (True, Some (1 / 32))"
    by code_simp
  have a: "f_div ieee754 (f_sub ieee754 (Some (1 / 16)) (Some (1 / 32))) (f_lit ieee754 2)
      = Some (1 / 64)"
    by code_simp
  note t = tray_to_lens_offset [OF d g, of "FieldOfView None None None None"
      "FieldOfView None None None None" "[]", unfolded a]
  from t d g show ?thesis
    by blast
qed

subsection \<open>Arity of the configured vectors\<close>

lemma GetProperty_vector_if_parsed:
  "GetProperty_vector F P name d =
     (if parsed_values F P name = [] then d else parsed_values F P name)"
  by (simp add: GetProperty_vector_def parsed_values_def parse_values_filter Let_def)

lemma checked_offsets_parsed:
  "checked_offsets F P =
     (if length (parsed_values F P kRGBPolynomialOffset) = 3
      then parsed_values F P kRGBPolynomialOffset else default_offsets F)"
  by (simp add: checked_offsets_def GetProperty_vector_if_parsed Let_def default_offsets_def)

text \<open>
  Claim C4, counterexample. With \<open>persist.dvr.r_poly = "1,x,2"\<close> the red channel gets
  the coefficient vector \<open>[1, 2]\<close>: the token \<open>x\<close> is skipped, the two values that parse
  are applied, and the result neither has the seven components of the default nor is
  the default.
\<close>

theorem coefficient_vector_applied_partially:
  "GetProperty_vector ieee754 [kRPolynomial \<mapsto> ''1,x,2''] kRPolynomial (default_r ieee754)
     = [Some 1, Some 2]
   \<and> length (default_r ieee754) = 7
   \<and> map_option snd (CreateHeadMountMetrics ieee754 [kRPolynomial \<mapsto> ''1,x,2''] [])
     = Some [PolynomialRadialDistortion (default_offsets ieee754 ! 0) [Some 1, Some 2],
             PolynomialRadialDistortion (default_offsets ieee754 ! 1) (default_g ieee754),
             PolynomialRadialDistortion (default_offsets ieee754 ! 2) (default_b ieee754)]"
proof -
  let ?P = "[kRPolynomial \<mapsto> ''1,x,2'']"
  have r: "parsed_values ieee754 ?P kRPolynomial = [Some 1, Some 2]"
    by code_simp
  have g: "parsed_values ieee754 ?P kGPolynomial = []"
    by code_simp
  have b: "parsed_values ieee754 ?P kBPolynomial = []"
    by code_simp
  have o: "parsed_values ieee754 ?P kRGBPolynomialOffset = []"
    by code_simp
  have l: "length (default_r ieee754) = 7"
    by (simp add: default_r_def)
  show ?thesis
    by (simp add: r g b o l CreateHeadMountMetrics_eq CreateHeadMountMetrics_fov_eq
        checked_offsets_parsed GetProperty_vector_if_parsed)
qed

text \<open>
  Claim C4, amended. Tokens that do not parse are skipped. The polynomial offsets are
  the parsed values when exactly 3 tokens parse and the whole default otherwise; the
  field of view is the parsed values when exactly 4 tokens parse and the whole default
  otherwise. The R, G and B coefficient vectors have no arity check: each is the list
  of its parsed values, of whatever length, and the default only when no token parses.
\<close>

theorem vector_arity_checks:
  "map_option snd (CreateHeadMountMetrics_fov F P l_fov r_fov h) =
     (let offsets = (if length (parsed_values F P kRGBPolynomialOffset) = 3
                     then parsed_values F P kRGBPolynomialOffset else default_offsets F);
          coeffs = (\<lambda>name dflt. if parsed_values F P name = [] then dflt
                                  else parsed_values F P name)
      in Some (h @ [PolynomialRadialDistortion (offsets ! 0) (coeffs kRPolynomial (default_r F)),
                    PolynomialRadialDistortion (offsets ! 1) (coeffs kGPolynomial (default_g F)),
                    PolynomialRadialDistortion (offsets ! 2) (coeffs kBPolynomial (default_b F))]))
   \<and> map_option snd (CreateHeadMountMetrics F P h) =
       map_option snd (CreateHeadMountMetrics_fov F P l_fov r_fov h)
   \<and> GetMaxFOVs F P =
       map (to_radians F)
         (if length (parsed_values F P kFovIOBT) = 4
          then parsed_values F P kFovIOBT else fov_defaults F)"
proof -
  have fov: "GetMaxFOVs F P =
       map (to_radians F)
         (if length (parsed_values F P kFovIOBT) = 4
          then parsed_values F P kFovIOBT else fov_defaults F)"
    by (simp add: GetMaxFOVs_def GetProperty_vector_if_parsed Let_def fov_defaults_length)
  show ?thesis
    by (simp add: CreateHeadMountMetrics_eq CreateHeadMountMetrics_fov_eq
        checked_offsets_parsed GetProperty_vector_if_parsed fov Let_def)
qed

subsection \<open>Malformed and absent values\<close>

lemma property_get_other:
  "name \<noteq> k \<Longrightarrow> property_get (P(k \<mapsto> v)) name d = property_get (P(k := None)) name d"
  by (simp add: property_get_def)

lemma property_get_set:
  "property_get (P(k \<mapsto> v)) k [] = take (PROPERTY_VALUE_MAX - 1) (c_str v)"
  by (simp add: property_get_def c_str_def Let_def)

lemma strtof_end_Nil: "strtof_end [] = 0"
  by code_simp

lemma accepted_values_rejected:
  "list_all (\<lambda>t. strtof_end t = 0) (comma_tokens text) \<Longrightarrow> accepted_values F text = []"
proof -
  have "list_all (\<lambda>t. strtof_end t = 0) ts \<Longrightarrow> filter (\<lambda>t. strtof_end t \<noteq> 0) ts = []" for ts
    by (induction ts) simp_all
  then show "list_all (\<lambda>t. strtof_end t = 0) (comma_tokens text) \<Longrightarrow> accepted_values F text = []"
    by (simp add: accepted_values_def)
qed

lemma accepted_values_Nil: "accepted_values F [] = []"
  by (simp add: accepted_values_def comma_tokens_def)

lemma GetProperty_vector_rejected:
  assumes "rejected_value k v" and "List.member vector_keys k"
  shows "GetProperty_vector F (P(k \<mapsto> v)) k d = d"
proof -
  have "\<not> List.member scalar_keys k"
    using assms(2)
    by (auto simp: vector_keys_def scalar_keys_def kRGBPolynomialOffset_def kRPolynomial_def
        kGPolynomial_def kBPolynomial_def kFovIOBT_def kScreenSize_def kLensDistance_def
        kDisplayGap_def kVEyeToDisplay_def)
  with assms have "accepted_values F (property_get (P(k \<mapsto> v)) k []) = []"
    by (simp add: rejected_value_def Let_def property_get_set accepted_values_rejected)
  then show ?thesis
    by (simp add: GetProperty_vector_accepted)
qed

lemma GetProperty_float_rejected:
  assumes "rejected_value k v" and "List.member scalar_keys k"
  shows "GetProperty_float F (P(k \<mapsto> v)) k d = d"
  using assms by (simp add: rejected_value_def Let_def property_get_set GetProperty_float_eq)

lemma GetProperty_vector_unset: "GetProperty_vector F (P(k := None)) k d = d"
  by (simp add: GetProperty_vector_accepted property_get_unset accepted_values_Nil)

lemma GetProperty_float_unset: "GetProperty_float F (P(k := None)) k d = d"
  by (simp add: GetProperty_float_eq property_get_unset strtof_end_Nil)

lemma GetProperty_vector_as_unset:
  assumes "rejected_value k v" and "List.member vector_keys name"
  shows "GetProperty_vector F (P(k \<mapsto> v)) name d = GetProperty_vector F (P(k := None)) name d"
proof (cases "name = k")
  case True
  with assms show ?thesis
    by (simp add: GetProperty_vector_rejected GetProperty_vector_unset)
next
  case False
  then show ?thesis
    by (simp add: GetProperty_vector_def property_get_other)
qed

lemma GetProperty_float_as_unset:
  assumes "rejected_value k v" and "List.member scalar_keys name"
  shows "GetProperty_float F (P(k \<mapsto> v)) name d = GetProperty_float F (P(k := None)) name d"
proof (cases "name = k")
  case True
  with assms show ?thesis
    by (simp add: GetProperty_float_rejected GetProperty_float_unset)
next
  case False
  then show ?thesis
    by (simp add: GetProperty_float_def property_get_other)
qed

lemma getters_as_unset:
  assumes "rejected_value k v"
  shows "GetInterLensDistance F (P(k \<mapsto> v)) = GetInterLensDistance F (P(k := None))"
    and "GetDisplayGap F (P(k \<mapsto> v)) = GetDisplayGap F (P(k := None))"
    and "GetVEyeToDisplay F (P(k \<mapsto> v)) = GetVEyeToDisplay F (P(k := None))"
    and "GetMaxFOVs F (P(k \<mapsto> v)) = GetMaxFOVs F (P(k := None))"
    and "checked_offsets F (P(k \<mapsto> v)) = checked_offsets F (P(k := None))"
    and "GetProperty_vector F (P(k \<mapsto> v)) kRPolynomial d
         = GetProperty_vector F (P(k := None)) kRPolynomial d"
    and "GetProperty_vector F (P(k \<mapsto> v)) kGPolynomial d
         = GetProperty_vector F (P(k := None)) kGPolynomial d"
    and "GetProperty_vector F (P(k \<mapsto> v)) kBPolynomial d
         = GetProperty_vector F (P(k := None)) kBPolynomial d"
proof -
  have s: "List.member scalar_keys kLensDistance" "List.member scalar_keys kDisplayGap"
    "List.member scalar_keys kVEyeToDisplay"
    by (simp_all add: scalar_keys_def)
  have t: "List.member vector_keys kFovIOBT" "List.member vector_keys kRGBPolynomialOffset"
    "List.member vector_keys kRPolynomial" "List.member vector_keys kGPolynomial"
    "List.member vector_keys kBPolynomial"
    by (simp_all add: vector_keys_def)
  show "GetInterLensDistance F (P(k \<mapsto> v)) = GetInterLensDistance F (P(k := None))"
    unfolding GetInterLensDistance_def by (rule GetProperty_float_as_unset [OF assms s(1)])
  show "GetDisplayGap F (P(k \<mapsto> v)) = GetDisplayGap F (P(k := None))"
    unfolding GetDisplayGap_def by (rule GetProperty_float_as_unset [OF assms s(2)])
  show "GetVEyeToDisplay F (P(k \<mapsto> v)) = GetVEyeToDisplay F (P(k := None))"
    unfolding GetVEyeToDisplay_def by (rule GetProperty_float_as_unset [OF assms s(3)])
  show "GetMaxFOVs F (P(k \<mapsto> v)) = GetMaxFOVs F (P(k := None))"
    unfolding GetMaxFOVs_def by (simp only: GetProperty_vector_as_unset [OF assms t(1)])
  show "checked_offsets F (P(k \<mapsto> v)) = checked_offsets F (P(k := None))"
    unfolding checked_offsets_def by (simp only: GetProperty_vector_as_unset [OF assms t(2)])
  show "GetProperty_vector F (P(k \<mapsto> v)) kRPolynomial d
         = GetProperty_vector F (P(k := None)) kRPolynomial d"
    by (rule GetProperty_vector_as_unset [OF assms t(3)])
  show "GetProperty_vector F (P(k \<mapsto> v)) kGPolynomial d
         = GetProperty_vector F (P(k := None)) kGPolynomial d"
    by (rule GetProperty_vector_as_unset [OF assms t(4)])
  show "GetProperty_vector F (P(k \<mapsto> v)) kBPolynomial d
         = GetProperty_vector F (P(k := None)) kBPolynomial d"
    by (rule GetProperty_vector_as_unset [OF assms t(5)])
qed

lemma property_get_empty: "property_get Map.empty name [] = []"
  by (simp add: property_get_def c_str_def)

lemma readers_empty:
  "GetProperty_float F Map.empty name d = d"
  "GetProperty_vector F Map.empty name ds = ds"
  by (simp_all add: GetProperty_float_eq GetProperty_vector_accepted property_get_empty
      strtof_end_Nil accepted_values_Nil)

lemma rejected_value_fully_malformed:
  assumes "rejected_value k v"
  shows "fully_malformed k v"
proof -
  have a: "strtof_end t = 0 \<Longrightarrow> \<not> parses_whole t" for t
    using parses_whole_accepted by blast
  have b: "list_all (\<lambda>t. strtof_end t = 0) ts \<Longrightarrow> list_all (\<lambda>t. \<not> parses_whole t) ts" for ts
    by (induction ts) (auto dest: a)
  from assms show ?thesis
    by (auto simp: rejected_value_def fully_malformed_def Let_def a b split: if_splits)
qed

text \<open>
  Claim C10, counterexample. \<open>"1.5abc"\<close> does not parse as a number, and no token of
  \<open>"1x,2y,3z"\<close> does; yet the inter-lens distance read from the first is 1.5 where an
  absent property gives the default 0.064, and the offsets read from the second are
  1, 2 and 3 where an absent property gives the default offsets.
\<close>

theorem numeric_prefix_value_differs_from_absent:
  "fully_malformed kLensDistance ''1.5abc''
   \<and> map_option (inter_lens_distance \<circ> fst)
       (CreateHeadMountMetrics ieee754 [kLensDistance \<mapsto> ''1.5abc''] []) = Some (Some (3 / 2))
   \<and> map_option (inter_lens_distance \<circ> fst) (CreateHeadMountMetrics ieee754 Map.empty [])
     = Some (Some (8589935 / 134217728))
   \<and> fully_malformed kRGBPolynomialOffset ''1x,2y,3z''
   \<and> map_option snd (CreateHeadMountMetrics ieee754 [kRGBPolynomialOffset \<mapsto> ''1x,2y,3z''] [])
     = Some [PolynomialRadialDistortion (Some 1) (default_r ieee754),
             PolynomialRadialDistortion (Some 2) (default_g ieee754),
             PolynomialRadialDistortion (Some 3) (default_b ieee754)]
   \<and> map_option snd (CreateHeadMountMetrics ieee754 Map.empty [])
     = Some [PolynomialRadialDistortion (Some (14073833 / 67108864)) (default_r ieee754),
             PolynomialRadialDistortion (Some (10193467 / 67108864)) (default_g ieee754),
             PolynomialRadialDistortion (Some (8396741 / 8388608)) (default_b ieee754)]"
proof -
  have m1: "fully_malformed kLensDistance ''1.5abc''"
    by code_simp
  have m2: "fully_malformed kRGBPolynomialOffset ''1x,2y,3z''"
    by code_simp
  have i1: "GetInterLensDistance ieee754 [kLensDistance \<mapsto> ''1.5abc''] = Some (3 / 2)"
    by code_simp
  have i0: "GetInterLensDistance ieee754 Map.empty = Some (8589935 / 134217728)"
    by code_simp
  have o1: "checked_offsets ieee754 [kRGBPolynomialOffset \<mapsto> ''1x,2y,3z'']
      = [Some 1, Some 2, Some 3]"
    by code_simp
  have o0: "checked_offsets ieee754 Map.empty
      = [Some (14073833 / 67108864), Some (10193467 / 67108864), Some (8396741 / 8388608)]"
    by code_simp
  have p: "accepted_values ieee754
      (property_get [kRGBPolynomialOffset \<mapsto> ''1x,2y,3z''] name []) = []"
    if "name \<noteq> kRGBPolynomialOffset" for name
    using that by (simp add: property_get_def c_str_def accepted_values_Nil)
  have ne: "kRPolynomial \<noteq> kRGBPolynomialOffset" "kGPolynomial \<noteq> kRGBPolynomialOffset"
    "kBPolynomial \<noteq> kRGBPolynomialOffset"
    by (simp_all add: kRPolynomial_def kGPolynomial_def kBPolynomial_def
        kRGBPolynomialOffset_def)
  have h1: "map_option snd
      (CreateHeadMountMetrics ieee754 [kRGBPolynomialOffset \<mapsto> ''1x,2y,3z''] [])
     = Some [PolynomialRadialDistortion (Some 1) (default_r ieee754),
             PolynomialRadialDistortion (Some 2) (default_g ieee754),
             PolynomialRadialDistortion (Some 3) (default_b ieee754)]"
    by (simp add: CreateHeadMountMetrics_eq CreateHeadMountMetrics_fov_eq o1
        GetProperty_vector_accepted p ne)
  have h0: "map_option snd (CreateHeadMountMetrics ieee754 Map.empty [])
     = Some [PolynomialRadialDistortion (Some (14073833 / 67108864)) (default_r ieee754),
             PolynomialRadialDistortion (Some (10193467 / 67108864)) (default_g ieee754),
             PolynomialRadialDistortion (Some (8396741 / 8388608)) (default_b ieee754)]"
    by (simp add: CreateHeadMountMetrics_eq CreateHeadMountMetrics_fov_eq o0 readers_empty)
  have d1: "map_option (inter_lens_distance \<circ> fst)
       (CreateHeadMountMetrics ieee754 [kLensDistance \<mapsto> ''1.5abc''] []) = Some (Some (3 / 2))"
    by (simp add: CreateHeadMountMetrics_eq CreateHeadMountMetrics_fov_eq i1)
  have d0: "map_option (inter_lens_distance \<circ> fst) (CreateHeadMountMetrics ieee754 Map.empty [])
     = Some (Some (8589935 / 134217728))"
    by (simp add: CreateHeadMountMetrics_eq CreateHeadMountMetrics_fov_eq i0)
  from m1 m2 d1 d0 h1 h0 show ?thesis
    by blast
qed

text \<open>
  Claim C10, amended. No factory fails, whatever the property store holds. For every
  key, a value without a number to read (for a scalar key \<open>strtof\<close> consumes nothing
  of the text, for a vector key nothing of any token), which is fully malformed in the
  spec's sense, gives each factory exactly the result of the store with the key unset;
  the reader of the key returns the caller's default, and with no other property set
  the factory result consists of the compiled-in defaults. A malformed value that
  starts with a number is not covered: its numeric prefix is used.
\<close>

theorem unparsable_value_as_absent:
  assumes "rejected_value k v"
  shows "fully_malformed k v
         \<and> CreateHeadMountMetrics_fov F (P(k \<mapsto> v)) l_fov r_fov h
           = CreateHeadMountMetrics_fov F (P(k := None)) l_fov r_fov h
         \<and> CreateHeadMountMetrics F (P(k \<mapsto> v)) h = CreateHeadMountMetrics F (P(k := None)) h
         \<and> CreateUndistortedHeadMountMetrics_fov F (P(k \<mapsto> v)) l_fov r_fov h
           = CreateUndistortedHeadMountMetrics_fov F (P(k := None)) l_fov r_fov h
         \<and> CreateUndistortedHeadMountMetrics F (P(k \<mapsto> v)) h
           = CreateUndistortedHeadMountMetrics F (P(k := None)) h
         \<and> CreateDisplayMetrics F (P(k \<mapsto> v)) screen_size
           = CreateDisplayMetrics F (P(k := None)) screen_size
         \<and> (if List.member scalar_keys k then GetProperty_float F (P(k \<mapsto> v)) k d = d
            else if List.member vector_keys k then GetProperty_vector F (P(k \<mapsto> v)) k ds = ds
            else True)
         \<and> CreateHeadMountMetrics_fov F (Map.empty(k \<mapsto> v)) l_fov r_fov h =
             Some (\<lparr>inter_lens_distance = f_lit F 0.064,
                     eye_to_display_l = f_lit F 0.035,
                     eye_to_display_r = f_lit F 0.035,
                     vertical_alignment = kCenter,
                     left_fov = l_fov,
                     right_fov = r_fov,
                     red_distortion = length h,
                     green_distortion = length h + 1,
                     blue_distortion = length h + 2,
                     left_eye_orientation = kCCW0Degrees,
                     right_eye_orientation = kCCW0Degrees,
                     tray_to_lens_distance =
                       f_div F (f_sub F (f_lit F 0.064) (f_lit F 0.0)) (f_lit F 2.0)\<rparr>,
                   h @ [PolynomialRadialDistortion (f_lit F 0.20971645238) (default_r F),
                        PolynomialRadialDistortion (f_lit F 0.15189450000) (default_g F),
                        PolynomialRadialDistortion (f_lit F 1.00096958278) (default_b F)])
         \<and> GetMaxFOVs F (Map.empty(k \<mapsto> v)) =
             map (\<lambda>v. d_to_f F (d_div F (d_mul F (f_to_d F v) (d_lit F 3.14159265358979323846))
                                   (f_to_d F (f_lit F 180))))
               [f_lit F 43.7, f_lit F 47.8, f_lit F 54.2, f_lit F 54.2]
         \<and> CreateHeadMountMetrics_fov F Q l_fov r_fov h \<noteq> None
         \<and> CreateHeadMountMetrics F Q h \<noteq> None
         \<and> CreateUndistortedHeadMountMetrics_fov F Q l_fov r_fov h \<noteq> None
         \<and> CreateUndistortedHeadMountMetrics F Q h \<noteq> None
         \<and> CreateDisplayMetrics F Q screen_size \<noteq> None"
proof -
  note g = getters_as_unset [OF assms, of F P]
  note g0 = getters_as_unset [OF assms, of F Map.empty]
  have e: "CreateDisplayMetrics F Q' screen_size = CreateDisplayMetrics F Q screen_size" for Q'
    by (simp add: CreateDisplayMetrics_def GetDisplaySize_default)
  have f: "CreateDisplayMetrics F Q screen_size \<noteq> None"
    by (simp add: CreateDisplayMetrics_def GetDisplaySize_default)
  have m: "max_fov_l F (P(k \<mapsto> v)) = max_fov_l F (P(k := None))"
    "max_fov_r F (P(k \<mapsto> v)) = max_fov_r F (P(k := None))"
    by (simp_all add: max_fov_l_def max_fov_r_def g)
  have r: "if List.member scalar_keys k then GetProperty_float F (P(k \<mapsto> v)) k d = d
      else if List.member vector_keys k then GetProperty_vector F (P(k \<mapsto> v)) k ds = ds
      else True"
    using assms by (simp add: GetProperty_float_rejected GetProperty_vector_rejected)
  have z: "Map.empty(k := None) = (Map.empty :: props)"
    by simp
  have o: "checked_offsets F Map.empty = default_offsets F"
    by (simp add: checked_offsets_def readers_empty default_offsets_def)
  have d0: "CreateHeadMountMetrics_fov F (Map.empty(k \<mapsto> v)) l_fov r_fov h =
             Some (\<lparr>inter_lens_distance = f_lit F 0.064,
                     eye_to_display_l = f_lit F 0.035,
                     eye_to_display_r = f_lit F 0.035,
                     vertical_alignment = kCenter,
                     left_fov = l_fov,
                     right_fov = r_fov,
                     red_distortion = length h,
                     green_distortion = length h + 1,
                     blue_distortion = length h + 2,
                     left_eye_orientation = kCCW0Degrees,
                     right_eye_orientation = kCCW0Degrees,
                     tray_to_lens_distance =
                       f_div F (f_sub F (f_lit F 0.064) (f_lit F 0.0)) (f_lit F 2.0)\<rparr>,
                   h @ [PolynomialRadialDistortion (f_lit F 0.20971645238) (default_r F),
                        PolynomialRadialDistortion (f_lit F 0.15189450000) (default_g F),
                        PolynomialRadialDistortion (f_lit F 1.00096958278) (default_b F)])"
    unfolding CreateHeadMountMetrics_fov_eq g0 z
    by (simp add: o GetInterLensDistance_def GetDisplayGap_def GetVEyeToDisplay_def
        readers_empty default_offsets_def)
  have f0: "GetMaxFOVs F (Map.empty(k \<mapsto> v)) =
             map (\<lambda>v. d_to_f F (d_div F (d_mul F (f_to_d F v) (d_lit F 3.14159265358979323846))
                                   (f_to_d F (f_lit F 180))))
               [f_lit F 43.7, f_lit F 47.8, f_lit F 54.2, f_lit F 54.2]"
    unfolding g0 z by (simp add: GetMaxFOVs_def readers_empty fov_defaults_def to_radians_eq)
  have eqs: "CreateHeadMountMetrics_fov F (P(k \<mapsto> v)) l_fov r_fov h
           = CreateHeadMountMetrics_fov F (P(k := None)) l_fov r_fov h
         \<and> CreateHeadMountMetrics F (P(k \<mapsto> v)) h = CreateHeadMountMetrics F (P(k := None)) h
         \<and> CreateUndistortedHeadMountMetrics_fov F (P(k \<mapsto> v)) l_fov r_fov h
           = CreateUndistortedHeadMountMetrics_fov F (P(k := None)) l_fov r_fov h
         \<and> CreateUndistortedHeadMountMetrics F (P(k \<mapsto> v)) h
           = CreateUndistortedHeadMountMetrics F (P(k := None)) h"
    by (simp add: CreateHeadMountMetrics_eq CreateUndistortedHeadMountMetrics_eq
        CreateHeadMountMetrics_fov_eq CreateUndistortedHeadMountMetrics_fov_eq g m)
  have some: "CreateHeadMountMetrics_fov F Q l_fov r_fov h \<noteq> None
         \<and> CreateHeadMountMetrics F Q h \<noteq> None
         \<and> CreateUndistortedHeadMountMetrics_fov F Q l_fov r_fov h \<noteq> None
         \<and> CreateUndistortedHeadMountMetrics F Q h \<noteq> None"
    by (simp add: CreateHeadMountMetrics_eq CreateUndistortedHeadMountMetrics_eq
        CreateHeadMountMetrics_fov_eq CreateUndistortedHeadMountMetrics_fov_eq)
  from rejected_value_fully_malformed [OF assms] eqs e [of "P(k \<mapsto> v)"] e [of "P(k := None)"]
    r d0 f0 some f
  show ?thesis
    by (simp only: simp_thms)
qed

theorem unparsable_value_as_absent_witness:
  "rejected_value kFovIOBT ''abc,x''
   \<and> fully_malformed kFovIOBT ''abc,x''
   \<and> CreateHeadMountMetrics ieee754 (Map.empty(kFovIOBT \<mapsto> ''abc,x'')) []
     = CreateHeadMountMetrics ieee754 (Map.empty(kFovIOBT := None)) []
   \<and> CreateDisplayMetrics ieee754 (Map.empty(kFovIOBT \<mapsto> ''abc,x'')) (1000, 1000)
     = CreateDisplayMetrics ieee754 (Map.empty(kFovIOBT := None)) (1000, 1000)
   \<and> GetProperty_vector ieee754 (Map.empty(kFovIOBT \<mapsto> ''abc,x'')) kFovIOBT
       (fov_defaults ieee754) = fov_defaults ieee754
   \<and> CreateHeadMountMetrics ieee754 (Map.empty(kFovIOBT \<mapsto> ''abc,x'')) [] \<noteq> None
   \<and> rejected_value kLensDistance ''abc''
   \<and> GetProperty_float ieee754 (Map.empty(kLensDistance \<mapsto> ''abc'')) kLensDistance
       (f_lit ieee754 0.064) = f_lit ieee754 0.064"
proof -
  have u: "rejected_value kFovIOBT ''abc,x''"
    by code_simp
  have w: "rejected_value kLensDistance ''abc''"
    by code_simp
  have ks: "List.member scalar_keys kFovIOBT = False" "List.member vector_keys kFovIOBT = True"
    "List.member scalar_keys kLensDistance = True"
    by code_simp+
  note a = unparsable_value_as_absent [OF u, of ieee754 Map.empty
      "FieldOfView None None None None" "FieldOfView None None None None" "[]" "(1000, 1000)"
      "f_lit ieee754 0.064" "fov_defaults ieee754" "Map.empty(kFovIOBT \<mapsto> ''abc,x'')",
      unfolded ks if_True if_False]
  note b = unparsable_value_as_absent [OF w, of ieee754 Map.empty
      "FieldOfView None None None None" "FieldOfView None None None None" "[]" "(1000, 1000)"
      "f_lit ieee754 0.064" "fov_defaults ieee754" "Map.empty",
      unfolded ks if_True if_False]
  from a b u w show ?thesis
    by blast
qed

end
